theory Spec2Isabelle
  imports Complex_Main "HOL-Library.Word"
begin

section \<open>Data model\<close>

text \<open>
  The development embeds \<^verbatim>\<open>orc-sys-mcu/src/main.cpp\<close>. The header \<^verbatim>\<open>sys_init.h\<close> with the
  struct declarations, the global objects and the macros is not part of the sources, and
  neither are the libraries behind \<^verbatim>\<open>eth\<close>, \<^verbatim>\<open>rtc\<close>, \<^verbatim>\<open>EEPROM\<close>, \<^verbatim>\<open>server\<close> and
  \<^verbatim>\<open>timeClient\<close>. Field types are the ones the source's own casts, initialisers and
  format strings show; macros and library functions are parameters (record \<open>Platform\<close>);
  what a device answers during a call is an input of the call (the \<open>Env\<close> records).
\<close>

text \<open>\<^verbatim>\<open>DateTime\<close>: the casts in \<^verbatim>\<open>epochToDateTime\<close> give the field widths.\<close>

record DateTime =
  year :: "16 word"
  month :: "8 word"
  day :: "8 word"
  hour :: "8 word"
  minute :: "8 word"
  second :: "8 word"

datatype IPAddress = IPAddress "8 word" "8 word" "8 word" "8 word"

text \<open>
  \<^verbatim>\<open>NetworkConfig\<close>; C strings are character lists without the terminating NUL. The port
  is taken to be a 16-bit unsigned field.
\<close>

record NetworkConfig =
  useDHCP :: bool
  ip :: IPAddress
  subnet :: IPAddress
  gateway :: IPAddress
  dns :: IPAddress
  timezone :: string
  hostname :: string
  ntpServer :: string
  ntpEnabled :: bool
  dstEnabled :: bool
  mqttBroker :: string
  mqttPort :: "16 word"
  mqttUsername :: string
  mqttPassword :: string

text \<open>
  The emulated EEPROM: the guard byte at offset 0 and the record stored at
  \<^verbatim>\<open>EE_NETWORK_CONFIG_ADDRESS\<close>, which is taken not to overlap the guard byte. The stored
  record is read only when the guard matches.
\<close>

record EEPROM =
  ee_magic :: "8 word"
  ee_networkConfig :: NetworkConfig

text \<open>
  The global \<^verbatim>\<open>status\<close>. A voltage is a \<^verbatim>\<open>float\<close> in the source and here the real number that
  the float denotes; no floating-point operation is modelled.
\<close>

record Status =
  Vpsu :: real
  V20 :: real
  V5 :: real
  psuOK :: bool
  V20OK :: bool
  V5OK :: bool
  LEDcolour :: "32 word list"

text \<open>
  The value of \<^verbatim>\<open>eth.linkStatus()\<close>. The source names \<^verbatim>\<open>LinkON\<close> and \<^verbatim>\<open>LinkOFF\<close>; a further
  value stands for any other enumerator.
\<close>

datatype LinkStatus = Unknown | LinkON | LinkOFF

datatype LogLevel = LOG_INFO | LOG_WARNING | LOG_ERROR

text \<open>
  Everything the firmware does to the outside world is recorded, in order, in a trace:
  a line handed to \<^verbatim>\<open>debug_printf\<close> (level and format string; the arguments are not
  recorded), a write to the clock chip, a delay in milliseconds, a query of the time
  server (\<^verbatim>\<open>timeClient.update()\<close>), the calls on the network interface, an HTTP response
  (\<^verbatim>\<open>server.send\<close>: status code and body), a restart of the device, and the call
  \<^verbatim>\<open>ipc.update()\<close>.
\<close>

datatype Event =
    Log LogLevel string
  | RtcSet DateTime
  | Delay nat
  | NtpBegin
  | NtpQuery
  | EthEnd
  | EthBegin bool
  | EthConfigIP IPAddress
  | EthConfig IPAddress IPAddress IPAddress IPAddress
  | EthSpiInit
  | EthHostname string
  | HttpSend nat string
  | Reboot
  | IpcUpdate

text \<open>
  The global variables of the program, and the \<^verbatim>\<open>static\<close> flag \<^verbatim>\<open>clientInitialized\<close> of
  \<^verbatim>\<open>ntpUpdate\<close>.
\<close>

record Sys =
  globalDateTime :: DateTime
  networkConfig :: NetworkConfig
  ntpUpdateTimestamp :: "32 word"
  clientInitialized :: bool
  ethernetConnected :: bool
  deviceMacAddress :: string
  eeprom :: EEPROM
  status :: Status
  trace :: "Event list"

subsection \<open>What the sources do not contain\<close>

text \<open>The result of \<^verbatim>\<open>gmtime\<close>.\<close>

record tm =
  tm_year :: int
  tm_mon :: int
  tm_mday :: int
  tm_hour :: int
  tm_min :: int
  tm_sec :: int

text \<open>
  Library functions. \<open>sscanf_tz\<close> is \<^verbatim>\<open>sscanf(_, "%d:%d", ...)\<close> and returns the values it
  converted, in order (none, one or two). \<open>sscanf_date\<close> is
  \<^verbatim>\<open>sscanf(_, "%hu-%hhu-%hhu", ...)\<close> and \<open>sscanf_time\<close> is \<^verbatim>\<open>sscanf(_, "%hhu:%hhu", ...)\<close>;
  they return the converted values when all conversions succeed. \<open>fromString\<close> is
  \<^verbatim>\<open>IPAddress::fromString\<close>: from the text and the address object as it is, the result flag
  and the address object afterwards.
\<close>

record LibC =
  gmtime :: "int \<Rightarrow> tm"
  sscanf_tz :: "string \<Rightarrow> int list"
  sscanf_date :: "string \<Rightarrow> (16 word \<times> 8 word \<times> 8 word) option"
  sscanf_time :: "string \<Rightarrow> (8 word \<times> 8 word) option"
  fromString :: "string \<Rightarrow> IPAddress \<Rightarrow> bool \<times> IPAddress"

text \<open>The LED indices and colours.\<close>

record Leds =
  LED_SYSTEM_STATUS :: "8 word"
  LED_WEBSERVER_STATUS :: "8 word"
  LED_MQTT_STATUS :: "8 word"
  LED_STATUS_OK :: "32 word"
  LED_STATUS_OFF :: "32 word"
  LED_STATUS_WARNING :: "32 word"

text \<open>The tolerance bands of the three rails.\<close>

record PowerConsts =
  V_PSU_MAX :: real
  V_PSU_MIN :: real
  V_20V_MAX :: real
  V_20V_MIN :: real
  V_5V_MAX :: real
  V_5V_MIN :: real

text \<open>The sizes of the character arrays of \<^verbatim>\<open>NetworkConfig\<close> and of \<^verbatim>\<open>deviceMacAddress\<close>.\<close>

record BufSizes =
  sizeof_timezone :: nat
  sizeof_hostname :: nat
  sizeof_ntpServer :: nat
  sizeof_mqttBroker :: nat
  sizeof_mqttUsername :: nat
  sizeof_mqttPassword :: nat
  sizeof_deviceMacAddress :: nat

text \<open>
  All of them together, with the guard constant, the two intervals of the time
  synchronisation, and the integer value of each link status (which decides the test
  \<^verbatim>\<open>!eth.linkStatus()\<close>).
\<close>

record Platform =
  EE_MAGIC_NUMBER :: "8 word"
  NTP_UPDATE_INTERVAL :: "32 word"
  NTP_MIN_SYNC_INTERVAL :: "32 word"
  linkValue :: "LinkStatus \<Rightarrow> int"
  libc :: LibC
  leds :: Leds
  rails :: PowerConsts
  sizes :: BufSizes

section \<open>Logging and utility functions\<close>

definition emit :: "Event \<Rightarrow> Sys \<Rightarrow> Sys" where
  "emit e s = s\<lparr>trace := trace s @ [e]\<rparr>"

text \<open>
  \<^verbatim>\<open>debug_printf\<close> waits for the serial mutex without a time limit and then prints; the
  model records the line.
\<close>

definition debug_printf :: "LogLevel \<Rightarrow> string \<Rightarrow> Sys \<Rightarrow> Sys" where
  "debug_printf logLevel format s = emit (Log logLevel format) s"

text \<open>
  \<^verbatim>\<open>strlcpy(dst, src, n)\<close> and the pair \<^verbatim>\<open>strncpy(dst, src, n - 1)\<close>,
  \<^verbatim>\<open>dst[n - 1] = 0\<close> both leave the first \<open>n - 1\<close> characters of the source.
\<close>

definition strlcpy :: "string \<Rightarrow> nat \<Rightarrow> string" where
  "strlcpy src n = take (n - 1) src"

text \<open>
  \<^verbatim>\<open>setLEDcolour\<close>; \<open>lockOK\<close> says whether the status mutex is taken within 100 ms.
\<close>

definition setLEDcolour :: "bool \<Rightarrow> 8 word \<Rightarrow> 32 word \<Rightarrow> Sys \<Rightarrow> bool \<times> Sys" where
  "setLEDcolour lockOK led colour s =
     (if led > 3 then (False, debug_printf LOG_ERROR ''Invalid LED number: %d\<newline>'' s)
      else if lockOK then
        (True, s\<lparr>status := (status s)\<lparr>LEDcolour := (LEDcolour (status s))[unat led := colour]\<rparr>\<rparr>)
      else (False, s))"

section \<open>The clock: \<^verbatim>\<open>getGlobalDateTime\<close> and \<^verbatim>\<open>updateGlobalDateTime\<close>\<close>

text \<open>
  What the environment answers during one call of \<^verbatim>\<open>updateGlobalDateTime\<close>:
  whether \<^verbatim>\<open>xSemaphoreTake(dateTimeMutex, 100 ms)\<close> succeeds, and what
  \<^verbatim>\<open>rtc.getDateTime\<close> returns in attempt \<open>retry\<close> (\<open>None\<close> when it returns false).
\<close>

record RtcEnv =
  lockAcquired :: bool
  readback :: "nat \<Rightarrow> DateTime option"

definition maxRetries :: nat where
  "maxRetries = 3"

definition retryDelayMs :: nat where
  "retryDelayMs = 100"

text \<open>The field-by-field comparison of the read-back with the value written.\<close>

definition sameDateTime :: "DateTime \<Rightarrow> DateTime \<Rightarrow> bool" where
  "sameDateTime currentTime dt \<longleftrightarrow>
     year currentTime = year dt \<and> month currentTime = month dt \<and>
     day currentTime = day dt \<and> hour currentTime = hour dt \<and>
     minute currentTime = minute dt \<and> second currentTime = second dt"

definition getGlobalDateTime :: "bool \<Rightarrow> Sys \<Rightarrow> DateTime option" where
  "getGlobalDateTime lockOK s = (if lockOK then Some (globalDateTime s) else None)"

definition retryDelay :: "nat \<Rightarrow> Sys \<Rightarrow> Sys" where
  "retryDelay retry s = (if retry < maxRetries - 1 then emit (Delay retryDelayMs) s else s)"

text \<open>
  One pass through the body of the \<^verbatim>\<open>for\<close> loop of \<^verbatim>\<open>updateGlobalDateTime\<close>: write,
  read back, compare. The flag says whether the loop is left by \<^verbatim>\<open>break\<close>.
\<close>

definition attempt :: "RtcEnv \<Rightarrow> DateTime \<Rightarrow> nat \<Rightarrow> Sys \<Rightarrow> bool \<times> Sys" where
  "attempt env dt retry s =
     (let s1 = debug_printf LOG_INFO
                 ''Attempt %d: Setting RTC to: %04d-%02d-%02d %02d:%02d:%02d\<newline>'' s;
          s2 = emit (RtcSet dt) s1
      in case readback env retry of
           Some currentTime \<Rightarrow>
             if sameDateTime currentTime dt then
               (let s3 = debug_printf LOG_INFO
                           ''RTC verification successful after %d retries.\<newline>'' s2
                in (True, s3\<lparr>globalDateTime := dt\<rparr>))
             else
               (False, retryDelay retry (debug_printf LOG_ERROR
                  ''RTC verification failed, current time: %04d-%02d-%02d %02d:%02d:%02d, expected time: %04d-%02d-%02d %02d:%02d:%02d\<newline>'' s2))
         | None \<Rightarrow>
             (False, retryDelay retry (debug_printf LOG_ERROR
                ''Failed to read time from RTC during verification.\<newline>'' s2)))"

text \<open>The loop itself; the result is the flag \<^verbatim>\<open>success\<close>.\<close>

function verifyLoop :: "RtcEnv \<Rightarrow> DateTime \<Rightarrow> nat \<Rightarrow> Sys \<Rightarrow> bool \<times> Sys" where
  "verifyLoop env dt retry s =
     (if retry < maxRetries then
        (case attempt env dt retry s of
           (True, s') \<Rightarrow> (True, s')
         | (False, s') \<Rightarrow> verifyLoop env dt (retry + 1) s')
      else (False, s))"
  by pat_completeness auto
termination
  by (relation "measure (\<lambda>(env, dt, retry, s). maxRetries - retry)") auto

declare verifyLoop.simps [simp del]

definition updateGlobalDateTime :: "RtcEnv \<Rightarrow> DateTime \<Rightarrow> Sys \<Rightarrow> bool \<times> Sys" where
  "updateGlobalDateTime env dt s =
     (if lockAcquired env then
        (let (success, s1) = verifyLoop env dt 0 s
         in if success then
              (True, debug_printf LOG_INFO
                       ''Time successfully set to: %04d-%02d-%02d %02d:%02d:%02d\<newline>'' s1)
            else
              (False, debug_printf LOG_ERROR
                        ''Failed to set RTC time after maximum retries.\<newline>'' s1))
      else
        (False, debug_printf LOG_ERROR
                  ''Failed to take dateTimeMutex in updateGlobalDateTime'' s))"

section \<open>Time synchronisation: \<^verbatim>\<open>ntpUpdate\<close> and \<^verbatim>\<open>handleNTPUpdates\<close>\<close>

definition epochToDateTime :: "Platform \<Rightarrow> int \<Rightarrow> DateTime" where
  "epochToDateTime p epochTime =
     (let timeinfo = gmtime (libc p) epochTime
      in \<lparr>year = word_of_int (tm_year timeinfo + 1900),
          month = word_of_int (tm_mon timeinfo + 1),
          day = word_of_int (tm_mday timeinfo),
          hour = word_of_int (tm_hour timeinfo),
          minute = word_of_int (tm_min timeinfo),
          second = word_of_int (tm_sec timeinfo)\<rparr>)"

text \<open>
  What the environment answers during one call of \<^verbatim>\<open>ntpUpdate\<close>: the link status, the result
  of the \<open>k\<close>-th call of \<^verbatim>\<open>timeClient.update()\<close> (counted from 0), the value of
  \<^verbatim>\<open>timeClient.getEpochTime()\<close>, and the answers to the clock commit.
\<close>

record NtpEnv =
  ntpLink :: LinkStatus
  ntpUpdateOK :: "nat \<Rightarrow> bool"
  epochTime :: int
  rtcEnv :: RtcEnv

text \<open>The retry loop of \<^verbatim>\<open>ntpUpdate\<close>; the result is the flag \<^verbatim>\<open>updateSuccessful\<close>.\<close>

function ntpRetry :: "NtpEnv \<Rightarrow> nat \<Rightarrow> Sys \<Rightarrow> bool \<times> Sys" where
  "ntpRetry env i s =
     (if i < 3 then
        (let s1 = emit NtpQuery s
         in if ntpUpdateOK env (i + 1) then (True, s1)
            else ntpRetry env (i + 1) (emit (Delay 10) s1))
      else (False, s))"
  by pat_completeness auto
termination
  by (relation "measure (\<lambda>(env, i, s). 3 - i)") auto

declare ntpRetry.simps [simp del]

text \<open>The part of \<^verbatim>\<open>ntpUpdate\<close> up to the time query: the flag says whether a time was obtained.\<close>

definition ntpQuery :: "NtpEnv \<Rightarrow> Sys \<Rightarrow> bool \<times> Sys" where
  "ntpQuery env s =
     (let s1 = emit NtpQuery s
      in if \<not> ntpUpdateOK env 0 then
           (let s2 = debug_printf LOG_WARNING
                       ''Failed to get time from NTP server, retrying\<newline>'' s1;
                (updateSuccessful, s3) = ntpRetry env 0 s2
            in if \<not> updateSuccessful then
                 (False, debug_printf LOG_ERROR
                           ''Failed to get time from NTP server, giving up\<newline>'' s3)
               else (True, s3))
         else (True, s1))"

text \<open>
  The time that \<^verbatim>\<open>ntpUpdate\<close> hands to the clock commit: the time of the server, moved by
  the offset of the time zone and by the hour of daylight saving.
\<close>

definition ntpLocalTime :: "Platform \<Rightarrow> NtpEnv \<Rightarrow> Sys \<Rightarrow> DateTime" where
  "ntpLocalTime p env s =
     (let tzDSToffset = (if dstEnabled (networkConfig s) then 3600 else 0);
          vs = sscanf_tz (libc p) (timezone (networkConfig s));
          tzHours = (if 1 \<le> length vs then vs ! 0 else 0);
          tzMinutes = (if 2 \<le> length vs then vs ! 1 else 0);
          epoch = epochTime env + (tzHours * 3600 + tzMinutes * 60 + tzDSToffset)
      in epochToDateTime p epoch)"

text \<open>The part of \<^verbatim>\<open>ntpUpdate\<close> after the time query.\<close>

definition ntpApply :: "Platform \<Rightarrow> NtpEnv \<Rightarrow> Sys \<Rightarrow> Sys" where
  "ntpApply p env s =
     (let newTime = ntpLocalTime p env s;
          (ok, s1) = updateGlobalDateTime (rtcEnv env) newTime s
      in if \<not> ok then debug_printf LOG_ERROR ''Failed to update time from NTP\<newline>'' s1
         else debug_printf LOG_INFO ''Time updated from NTP server\<newline>'' s1)"

definition ntpUpdate :: "Platform \<Rightarrow> NtpEnv \<Rightarrow> Sys \<Rightarrow> Sys" where
  "ntpUpdate p env s =
     (let s0 = (if \<not> clientInitialized s then (emit NtpBegin s)\<lparr>clientInitialized := True\<rparr>
                else s)
      in if linkValue p (ntpLink env) = 0 then s0
         else (let (ok, s1) = ntpQuery env s0
               in if \<not> ok then s1 else ntpApply p env s1))"

text \<open>
  One call of \<^verbatim>\<open>handleNTPUpdates\<close>: the two readings of \<^verbatim>\<open>millis()\<close>, before and after
  \<^verbatim>\<open>ntpUpdate\<close>, and the answers to \<^verbatim>\<open>ntpUpdate\<close>.
\<close>

record NtpCallEnv =
  millis1 :: "32 word"
  millis2 :: "32 word"
  ntpEnv :: NtpEnv

definition handleNTPUpdates :: "Platform \<Rightarrow> NtpCallEnv \<Rightarrow> bool \<Rightarrow> Sys \<Rightarrow> Sys" where
  "handleNTPUpdates p env forceUpdate s =
     (if \<not> ntpEnabled (networkConfig s) then s
      else (let timeSinceLastUpdate = millis1 env - ntpUpdateTimestamp s
            in if timeSinceLastUpdate > NTP_UPDATE_INTERVAL p \<or> forceUpdate then
                 (if timeSinceLastUpdate < NTP_MIN_SYNC_INTERVAL p then
                    debug_printf LOG_INFO
                      ''Time since last NTP update: %ds - skipping\<newline>'' s
                  else (ntpUpdate p (ntpEnv env) s)\<lparr>ntpUpdateTimestamp := millis2 env\<rparr>)
               else s))"

section \<open>Stored configuration\<close>

definition debugPrintNetConfig :: "Sys \<Rightarrow> Sys" where
  "debugPrintNetConfig s =
     (debug_printf LOG_INFO ''DST Enabled: %s\<newline>''
     (debug_printf LOG_INFO ''NTP Enabled: %s\<newline>''
     (debug_printf LOG_INFO ''NTP Server: %s\<newline>''
     (debug_printf LOG_INFO ''Hostname: %s\<newline>''
     (debug_printf LOG_INFO ''Timezone: %s\<newline>''
     (debug_printf LOG_INFO ''DNS: %s\<newline>''
     (debug_printf LOG_INFO ''Gateway: %s\<newline>''
     (debug_printf LOG_INFO ''Subnet: %s\<newline>''
     (debug_printf LOG_INFO ''IP: %s\<newline>''
     (debug_printf LOG_INFO ''Mode: %s\<newline>'' s))))))))))"

definition loadNetworkConfig :: "Platform \<Rightarrow> Sys \<Rightarrow> bool \<times> Sys" where
  "loadNetworkConfig p s =
     (let s1 = debug_printf LOG_INFO ''Loading network configuration:\<newline>'' s;
          magicNumber = ee_magic (eeprom s1);
          s2 = debug_printf LOG_INFO ''Magic number: %x\<newline>'' s1
      in if magicNumber \<noteq> EE_MAGIC_NUMBER p then (False, s2)
         else (True, debugPrintNetConfig
                       (s2\<lparr>networkConfig := ee_networkConfig (eeprom s2)\<rparr>)))"

definition saveNetworkConfig :: "Platform \<Rightarrow> Sys \<Rightarrow> Sys" where
  "saveNetworkConfig p s =
     (let s1 = debug_printf LOG_INFO ''Saving network configuration:\<newline>'' s;
          s2 = debugPrintNetConfig s1
      in s2\<lparr>eeprom := \<lparr>ee_magic = EE_MAGIC_NUMBER p,
                         ee_networkConfig = networkConfig s2\<rparr>\<rparr>)"

section \<open>The network interface: \<^verbatim>\<open>applyNetworkConfig\<close> and \<^verbatim>\<open>setupEthernet\<close>\<close>

text \<open>
  \<open>beginOK k\<close> is the result of the \<open>k\<close>-th call of \<^verbatim>\<open>eth.begin()\<close> within the call
  (counted from 0).
\<close>

definition applyNetworkConfig :: "(nat \<Rightarrow> bool) \<Rightarrow> Sys \<Rightarrow> bool \<times> Sys" where
  "applyNetworkConfig beginOK s =
     (if useDHCP (networkConfig s) then
        (let s1 = emit EthEnd s;
             s2 = emit (EthBegin (beginOK 0)) s1
         in if \<not> beginOK 0 then
              (let s3 = debug_printf LOG_INFO
                          ''Failed to configure Ethernet using DHCP, falling back to 192.168.1.10\<newline>'' s2;
                   defaultIP = IPAddress 192 168 1 10;
                   s4 = emit (EthConfigIP defaultIP) s3;
                   s5 = emit (EthBegin (beginOK 1)) s4
               in if \<not> beginOK 1 then (False, s5) else (True, s5))
            else (True, s2))
      else
        (let s1 = emit (EthConfig (ip (networkConfig s)) (gateway (networkConfig s))
                          (subnet (networkConfig s)) (dns (networkConfig s))) s;
             s2 = emit (EthBegin (beginOK 0)) s1
         in if \<not> beginOK 0 then (False, s2) else (True, s2)))"

text \<open>The default configuration that \<^verbatim>\<open>setupEthernet\<close> writes over the record in memory.\<close>

definition defaultNetworkConfig :: "NetworkConfig \<Rightarrow> NetworkConfig" where
  "defaultNetworkConfig cfg =
     cfg\<lparr>ntpEnabled := False, useDHCP := True, ip := IPAddress 192 168 1 100,
         subnet := IPAddress 255 255 255 0, gateway := IPAddress 192 168 1 1,
         dns := IPAddress 8 8 8 8, timezone := ''+13:00'', hostname := ''open-reactor'',
         ntpServer := ''pool.ntp.org'', dstEnabled := False\<rparr>"

definition hexDigit :: "nat \<Rightarrow> char" where
  "hexDigit n = ''0123456789ABCDEF'' ! n"

definition hex2 :: "8 word \<Rightarrow> string" where
  "hex2 b = [hexDigit (unat b div 16), hexDigit (unat b mod 16)]"

text \<open>The \<^verbatim>\<open>snprintf\<close> with \<^verbatim>\<open>"%02X:%02X:%02X:%02X:%02X:%02X"\<close> into a buffer of \<open>n\<close> bytes.\<close>

definition formatMac :: "(nat \<Rightarrow> 8 word) \<Rightarrow> nat \<Rightarrow> string" where
  "formatMac mac n =
     take (n - 1) (hex2 (mac 0) @ '':'' @ hex2 (mac 1) @ '':'' @ hex2 (mac 2) @ '':'' @
                   hex2 (mac 3) @ '':'' @ hex2 (mac 4) @ '':'' @ hex2 (mac 5))"

text \<open>
  What the environment answers during \<^verbatim>\<open>setupEthernet\<close>: the results of \<^verbatim>\<open>eth.begin()\<close>, the
  hardware address, and the link status after the delay.
\<close>

record SetupEnv =
  setupBeginOK :: "nat \<Rightarrow> bool"
  mac :: "nat \<Rightarrow> 8 word"
  setupLink :: LinkStatus

definition setupEthernet :: "Platform \<Rightarrow> SetupEnv \<Rightarrow> Sys \<Rightarrow> Sys" where
  "setupEthernet p env s =
     (let (loaded, s1) = loadNetworkConfig p s;
          s2 = (if \<not> loaded then
                  saveNetworkConfig p
                    ((debug_printf LOG_INFO
                        ''Invalid network configuration, using defaults\<newline>'' s1)
                     \<lparr>networkConfig := defaultNetworkConfig (networkConfig s1)\<rparr>)
                else s1);
          s3 = emit (EthHostname (hostname (networkConfig s2))) (emit EthSpiInit s2);
          (applied, s4) = applyNetworkConfig (setupBeginOK env) s3;
          s5 = (if \<not> applied then
                  debug_printf LOG_WARNING ''Failed to apply network configuration\<newline>'' s4
                else
                  debug_printf LOG_INFO ''MAC Address: %s\<newline>''
                    (s4\<lparr>deviceMacAddress :=
                          formatMac (mac env) (sizeof_deviceMacAddress (sizes p))\<rparr>));
          s6 = emit (Delay 2000) s5
      in if setupLink env = LinkOFF then
           (debug_printf LOG_WARNING ''Ethernet not connected\<newline>'' s6)
             \<lparr>ethernetConnected := False\<rparr>
         else
           (debug_printf LOG_INFO ''Ethernet connected, IP address: %s, Gateway: %s\<newline>'' s6)
             \<lparr>ethernetConnected := True\<rparr>)"

section \<open>The configuration API\<close>

text \<open>
  The body of a POST request as the handler sees it: no \<^verbatim>\<open>plain\<close> argument, text that
  \<^verbatim>\<open>deserializeJson\<close> rejects, or a document. A document is the record of the fields the
  handler reads; a field is \<open>None\<close> when the key is absent or its value has another type
  than the one the handler asks for.
\<close>

datatype 'd Body = NoBody | BadJson | Doc 'd

text \<open>The operator \<^verbatim>\<open>|\<close> of the JSON library: the value, or the default.\<close>

definition orDefault :: "'a option \<Rightarrow> 'a \<Rightarrow> 'a" where
  "orDefault v d = (case v of None \<Rightarrow> d | Some x \<Rightarrow> x)"

record NetworkDoc =
  nd_mode :: "string option"
  nd_ip :: "string option"
  nd_subnet :: "string option"
  nd_gateway :: "string option"
  nd_dns :: "string option"
  nd_hostname :: "string option"
  nd_ntp :: "string option"
  nd_dst :: "bool option"

text \<open>
  The block \<^verbatim>\<open>if (!networkConfig.useDHCP) { ... }\<close> of the handler of
  \<^verbatim>\<open>POST /api/network\<close>: each address is parsed into the live record; the result is the
  body of the error response when a parse fails, and the live record as it then is.
\<close>

definition parseAddresses ::
  "Platform \<Rightarrow> NetworkDoc \<Rightarrow> NetworkConfig \<Rightarrow> string option \<times> NetworkConfig" where
  \<open>parseAddresses p doc cfg =
     (let (ok1, a1) = fromString (libc p) (orDefault (nd_ip doc) []) (ip cfg);
          cfg1 = cfg\<lparr>ip := a1\<rparr>
      in if \<not> ok1 then (Some ''{"error":"Invalid IP address"}'', cfg1)
         else
      (let (ok2, a2) = fromString (libc p) (orDefault (nd_subnet doc) []) (subnet cfg1);
           cfg2 = cfg1\<lparr>subnet := a2\<rparr>
       in if \<not> ok2 then (Some ''{"error":"Invalid subnet mask"}'', cfg2)
          else
      (let (ok3, a3) = fromString (libc p) (orDefault (nd_gateway doc) []) (gateway cfg2);
           cfg3 = cfg2\<lparr>gateway := a3\<rparr>
       in if \<not> ok3 then (Some ''{"error":"Invalid gateway"}'', cfg3)
          else
      (let (ok4, a4) = fromString (libc p) (orDefault (nd_dns doc) []) (dns cfg3);
           cfg4 = cfg3\<lparr>dns := a4\<rparr>
       in if \<not> ok4 then (Some ''{"error":"Invalid DNS server"}'', cfg4)
          else (None, cfg4)))))\<close>

text \<open>The rest of the handler, after the addresses: the other fields, save, answer, restart.\<close>

definition networkPostFinish :: "Platform \<Rightarrow> NetworkDoc \<Rightarrow> Sys \<Rightarrow> Sys" where
  \<open>networkPostFinish p doc s =
     (let s1 = s\<lparr>networkConfig := (networkConfig s)
                  \<lparr>hostname := strlcpy (orDefault (nd_hostname doc) ''open-reactor'')
                                 (sizeof_hostname (sizes p)),
                   ntpServer := strlcpy (orDefault (nd_ntp doc) ''pool.ntp.org'')
                                  (sizeof_ntpServer (sizes p)),
                   dstEnabled := orDefault (nd_dst doc) False\<rparr>\<rparr>;
          s2 = saveNetworkConfig p s1;
          s3 = emit (HttpSend 200 ''{"status":"success","message":"Configuration saved"}'') s2
      in emit Reboot (emit (Delay 100) s3))\<close>

definition networkPost :: "Platform \<Rightarrow> NetworkDoc Body \<Rightarrow> Sys \<Rightarrow> Sys" where
  \<open>networkPost p body s =
     (case body of
        NoBody \<Rightarrow> emit (HttpSend 400 ''{"error":"No data received"}'') s
      | BadJson \<Rightarrow> emit (HttpSend 400 ''{"error":"Invalid JSON"}'') s
      | Doc doc \<Rightarrow>
          (let s1 = s\<lparr>networkConfig := (networkConfig s)
                       \<lparr>useDHCP := (nd_mode doc = Some ''dhcp'')\<rparr>\<rparr>
           in if \<not> useDHCP (networkConfig s1) then
                (case parseAddresses p doc (networkConfig s1) of
                   (Some err, cfg) \<Rightarrow> emit (HttpSend 400 err) (s1\<lparr>networkConfig := cfg\<rparr>)
                 | (None, cfg) \<Rightarrow> networkPostFinish p doc (s1\<lparr>networkConfig := cfg\<rparr>))
              else networkPostFinish p doc s1))\<close>

record MqttDoc =
  md_mqttBroker :: "string option"
  md_mqttPort :: "int option"
  md_mqttUsername :: "string option"
  md_mqttPassword :: "string option"

definition mqttPost :: "Platform \<Rightarrow> MqttDoc Body \<Rightarrow> Sys \<Rightarrow> Sys" where
  \<open>mqttPost p body s =
     (case body of
        NoBody \<Rightarrow> emit (HttpSend 400 ''{"error":"No data received"}'') s
      | BadJson \<Rightarrow> emit (HttpSend 400 ''{"error":"Invalid JSON"}'') s
      | Doc doc \<Rightarrow>
          (let cfg1 = (networkConfig s)
                 \<lparr>mqttBroker := strlcpy (orDefault (md_mqttBroker doc) [])
                                  (sizeof_mqttBroker (sizes p)),
                  mqttPort := word_of_int (orDefault (md_mqttPort doc) 1883),
                  mqttUsername := strlcpy (orDefault (md_mqttUsername doc) [])
                                    (sizeof_mqttUsername (sizes p))\<rparr>;
               newPassword = orDefault (md_mqttPassword doc) [];
               cfg2 = (if length newPassword > 0 then
                         cfg1\<lparr>mqttPassword := strlcpy newPassword
                                                (sizeof_mqttPassword (sizes p))\<rparr>
                       else cfg1);
               s1 = saveNetworkConfig p (s\<lparr>networkConfig := cfg2\<rparr>)
           in emit (HttpSend 200
                ''{"status":"success","message":"MQTT configuration saved"}'') s1))\<close>








section \<open>The clock task \<^verbatim>\<open>manageRTC\<close>\<close>




section \<open>The main loop\<close>

text \<open>
  What the environment answers during one pass of \<^verbatim>\<open>loop\<close>: the link status, whether the
  \<open>k\<close>-th call of \<^verbatim>\<open>setLEDcolour\<close> gets the status mutex, the results of \<^verbatim>\<open>eth.begin()\<close>, what
  \<^verbatim>\<open>server.handleClient()\<close> does to the state (the handler of the pending request, if any),
  and the answers to \<^verbatim>\<open>handleNTPUpdates\<close>.
\<close>

record LoopEnv =
  loopLink :: LinkStatus
  ledLock :: "nat \<Rightarrow> bool"
  loopBeginOK :: "nat \<Rightarrow> bool"
  handleClient :: "Sys \<Rightarrow> Sys"
  loopNtp :: NtpCallEnv

definition handleWebServer :: "Platform \<Rightarrow> LoopEnv \<Rightarrow> Sys \<Rightarrow> Sys" where
  "handleWebServer p env s =
     (if \<not> ethernetConnected s then s
      else snd (setLEDcolour (ledLock env 0) (LED_WEBSERVER_STATUS (leds p))
                  (LED_STATUS_OK (leds p)) (handleClient env s)))"

definition loop :: "Platform \<Rightarrow> LoopEnv \<Rightarrow> Sys \<Rightarrow> Sys" where
  "loop p env s =
     emit IpcUpdate
       (if ethernetConnected s then
          (if loopLink env = LinkOFF then
             (let s1 = s\<lparr>ethernetConnected := False\<rparr>;
                  s2 = snd (setLEDcolour (ledLock env 0) (LED_WEBSERVER_STATUS (leds p))
                              (LED_STATUS_OFF (leds p)) s1);
                  s3 = snd (setLEDcolour (ledLock env 1) (LED_MQTT_STATUS (leds p))
                              (LED_STATUS_OFF (leds p)) s2)
              in debug_printf LOG_INFO ''Ethernet disconnected, waiting for reconnect\<newline>'' s3)
           else handleNTPUpdates p (loopNtp env) False (handleWebServer p env s))
        else if loopLink env = LinkON then
          (let s1 = s\<lparr>ethernetConnected := True\<rparr>;
               (ok, s2) = applyNetworkConfig (loopBeginOK env) s1
           in if \<not> ok then
                debug_printf LOG_ERROR ''Failed to apply network configuration!\<newline>'' s2
              else
                debug_printf LOG_INFO
                  ''Ethernet re-connected, IP address: %s, Gateway: %s\<newline>'' s2)
        else s)"

text \<open>The status codes of the HTTP responses in a trace, in order.\<close>

fun httpCode :: "Event \<Rightarrow> nat option" where
  "httpCode (HttpSend code body) = Some code"
| "httpCode _ = None"

definition httpCodes :: "Event list \<Rightarrow> nat list" where
  "httpCodes tr = List.map_filter httpCode tr"

section \<open>The power task \<^verbatim>\<open>managePower\<close>\<close>

text \<open>The local flags of the task; they keep their values from one pass of the task loop to the next.\<close>

record PowerLocals =
  local_psuOK :: bool
  local_V20OK :: bool
  local_V5OK :: bool

text \<open>
  What one pass of the task loop takes from its environment: the values of \<^verbatim>\<open>Vpsu\<close>, \<^verbatim>\<open>V20\<close>
  and \<^verbatim>\<open>V5\<close> after the sampling loop and the division by ten, as the float arithmetic of
  the source leaves them (ten readings of the input, each scaled and added, ten
  milliseconds apart), and whether \<^verbatim>\<open>setLEDcolour\<close> and the write of the status record get
  the status mutex. The comparisons with the bounds of the band are the comparisons of the
  source, on these values.
\<close>

record PowerEnv =
  avgVpsu :: real
  avgV20 :: real
  avgV5 :: real
  powerLedLock :: bool
  statusLock :: bool

text \<open>
  The test of one rail, which the source writes out three times: the new flag, and the
  warning when the flag was set before.
\<close>

definition checkRail :: "real \<Rightarrow> real \<Rightarrow> real \<Rightarrow> bool \<Rightarrow> string \<Rightarrow> Sys \<Rightarrow> bool \<times> Sys" where
  "checkRail v vmax vmin wasOK msg s =
     (if v > vmax \<or> v < vmin then
        (False, if wasOK then debug_printf LOG_WARNING msg s else s)
      else (True, s))"

definition managePower_cycle ::
  "Platform \<Rightarrow> PowerEnv \<Rightarrow> PowerLocals \<Rightarrow> Sys \<Rightarrow> PowerLocals \<times> Sys" where
  "managePower_cycle p env l s =
     (let s0 = s\<lparr>trace := trace s @ replicate 10 (Delay 10)\<rparr>;
          vpsu = avgVpsu env;
          v20 = avgV20 env;
          v5 = avgV5 env;
          (psu, s1) = checkRail vpsu (V_PSU_MAX (rails p)) (V_PSU_MIN (rails p))
                        (local_psuOK l) ''PSU voltage out of range: %.2f V\<newline>'' s0;
          (ok20, s2) = checkRail v20 (V_20V_MAX (rails p)) (V_20V_MIN (rails p))
                         (local_V20OK l) ''20V voltage out of range: %.2f V\<newline>'' s1;
          (ok5, s3) = checkRail v5 (V_5V_MAX (rails p)) (V_5V_MIN (rails p))
                        (local_V5OK l) ''5V voltage out of range: %.2f V\<newline>'' s2;
          s4 = snd (setLEDcolour (powerLedLock env) (LED_SYSTEM_STATUS (leds p))
                      (if \<not> psu \<or> \<not> ok20 \<or> \<not> ok5 then LED_STATUS_WARNING (leds p)
                       else LED_STATUS_OK (leds p)) s3);
          s5 = (if statusLock env then
                  s4\<lparr>status := (status s4)\<lparr>Vpsu := vpsu, V20 := v20, V5 := v5,
                                              psuOK := psu, V20OK := ok20, V5OK := ok5\<rparr>\<rparr>
                else s4)
      in (\<lparr>local_psuOK = psu, local_V20OK = ok20, local_V5OK = ok5\<rparr>,
          emit (Delay 1000) s5))"

text \<open>Several passes of the task loop, one after the other.\<close>

fun managePower_cycles ::
  "Platform \<Rightarrow> PowerEnv list \<Rightarrow> PowerLocals \<Rightarrow> Sys \<Rightarrow> PowerLocals \<times> Sys" where
  "managePower_cycles p [] l s = (l, s)"
| "managePower_cycles p (env # envs) l s =
     (case managePower_cycle p env l s of (l', s') \<Rightarrow> managePower_cycles p envs l' s')"

text \<open>
  The three rails, for statements about any one of them: the averaged value of a pass, the
  band, the flag, and the warning.
\<close>

datatype Rail = RailPSU | Rail20V | Rail5V

fun railValue :: "PowerEnv \<Rightarrow> Rail \<Rightarrow> real" where
  "railValue env RailPSU = avgVpsu env"
| "railValue env Rail20V = avgV20 env"
| "railValue env Rail5V = avgV5 env"

fun railMax :: "Platform \<Rightarrow> Rail \<Rightarrow> real" where
  "railMax p RailPSU = V_PSU_MAX (rails p)"
| "railMax p Rail20V = V_20V_MAX (rails p)"
| "railMax p Rail5V = V_5V_MAX (rails p)"

fun railMin :: "Platform \<Rightarrow> Rail \<Rightarrow> real" where
  "railMin p RailPSU = V_PSU_MIN (rails p)"
| "railMin p Rail20V = V_20V_MIN (rails p)"
| "railMin p Rail5V = V_5V_MIN (rails p)"

fun railOK :: "PowerLocals \<Rightarrow> Rail \<Rightarrow> bool" where
  "railOK l RailPSU = local_psuOK l"
| "railOK l Rail20V = local_V20OK l"
| "railOK l Rail5V = local_V5OK l"

fun railWarning :: "Rail \<Rightarrow> Event" where
  "railWarning RailPSU = Log LOG_WARNING ''PSU voltage out of range: %.2f V\<newline>''"
| "railWarning Rail20V = Log LOG_WARNING ''20V voltage out of range: %.2f V\<newline>''"
| "railWarning Rail5V = Log LOG_WARNING ''5V voltage out of range: %.2f V\<newline>''"

definition outOfBand :: "Platform \<Rightarrow> Rail \<Rightarrow> PowerEnv \<Rightarrow> bool" where
  "outOfBand p r env \<longleftrightarrow> railValue env r > railMax p r \<or> railValue env r < railMin p r"

section \<open>Example inputs\<close>

text \<open>Concrete values on which the theorems below are instantiated.\<close>

definition exampleDateTime :: DateTime where
  "exampleDateTime = \<lparr>year = 2024, month = 5, day = 6, hour = 7, minute = 8, second = 0\<rparr>"

definition bootDateTime :: DateTime where
  "bootDateTime = \<lparr>year = 2000, month = 1, day = 1, hour = 0, minute = 0, second = 0\<rparr>"

definition exampleConfig :: NetworkConfig where
  "exampleConfig =
     \<lparr>useDHCP = True, ip = IPAddress 192 168 1 100, subnet = IPAddress 255 255 255 0,
      gateway = IPAddress 192 168 1 1, dns = IPAddress 8 8 8 8, timezone = ''+13:00'',
      hostname = ''open-reactor'', ntpServer = ''pool.ntp.org'', ntpEnabled = True,
      dstEnabled = False, mqttBroker = ''broker.local'', mqttPort = 1883,
      mqttUsername = ''reactor'', mqttPassword = ''secret''\<rparr>"

definition exampleStatus :: Status where
  "exampleStatus =
     \<lparr>Vpsu = 24, V20 = 20, V5 = 5, psuOK = True, V20OK = True, V5OK = True,
      LEDcolour = [0, 0, 0, 0]\<rparr>"

definition exampleSys :: Sys where
  "exampleSys =
     \<lparr>globalDateTime = bootDateTime, networkConfig = exampleConfig,
      ntpUpdateTimestamp = 0, clientInitialized = False, ethernetConnected = False,
      deviceMacAddress = [], eeprom = \<lparr>ee_magic = 0x55, ee_networkConfig = exampleConfig\<rparr>,
      status = exampleStatus, trace = []\<rparr>"

text \<open>A clock chip whose second read-back echoes the value written, and one that never answers.\<close>

definition rtcEcho :: "DateTime \<Rightarrow> RtcEnv" where
  "rtcEcho dt = \<lparr>lockAcquired = True, readback = (\<lambda>i. if i = 1 then Some dt else None)\<rparr>"

definition rtcSilent :: RtcEnv where
  "rtcSilent = \<lparr>lockAcquired = True, readback = (\<lambda>i. None)\<rparr>"

text \<open>
  Two ways of numbering the link status: in the order \<open>Unknown\<close>, \<open>LinkON\<close>, \<open>LinkOFF\<close>,
  and as a truth value (only \<open>LinkON\<close> is non-zero).
\<close>

definition linkOrder :: "LinkStatus \<Rightarrow> int" where
  "linkOrder l = (case l of Unknown \<Rightarrow> 0 | LinkON \<Rightarrow> 1 | LinkOFF \<Rightarrow> 2)"

definition linkBool :: "LinkStatus \<Rightarrow> int" where
  "linkBool l = (case l of Unknown \<Rightarrow> 0 | LinkON \<Rightarrow> 1 | LinkOFF \<Rightarrow> 0)"

text \<open>
  Library functions for the examples, each defined on the arguments the examples use:
  \<^verbatim>\<open>gmtime\<close> at 0 and at 46800 seconds (1 January 1970, 00:00 and 13:00), and the parsers
  on one text each.
\<close>

definition exampleLibC :: LibC where
  "exampleLibC =
     \<lparr>gmtime = (\<lambda>t. \<lparr>tm_year = 70, tm_mon = 0, tm_mday = 1,
                       tm_hour = (if t = 46800 then 13 else 0), tm_min = 0, tm_sec = 0\<rparr>),
      sscanf_tz = (\<lambda>str. if str = ''+13:00'' then [13, 0] else []),
      sscanf_date = (\<lambda>str. if str = ''2024-05-06'' then Some (2024, 5, 6) else None),
      sscanf_time = (\<lambda>str. if str = ''07:08'' then Some (7, 8) else None),
      fromString = (\<lambda>str a. if str = ''10.0.0.5'' then (True, IPAddress 10 0 0 5)
                             else if str = ''255.0.0.0'' then (True, IPAddress 255 0 0 0)
                             else (False, a))\<rparr>"

definition examplePlatform :: Platform where
  "examplePlatform =
     \<lparr>EE_MAGIC_NUMBER = 0x55, NTP_UPDATE_INTERVAL = 3600000, NTP_MIN_SYNC_INTERVAL = 70000,
      linkValue = linkOrder, libc = exampleLibC,
      leds = \<lparr>LED_SYSTEM_STATUS = 3, LED_WEBSERVER_STATUS = 0, LED_MQTT_STATUS = 2,
               LED_STATUS_OK = 0x00FF00, LED_STATUS_OFF = 0, LED_STATUS_WARNING = 0xFFFF00\<rparr>,
      rails = \<lparr>V_PSU_MAX = 30, V_PSU_MIN = 20,
                V_20V_MAX = 22, V_20V_MIN = 18, V_5V_MAX = 11 / 2, V_5V_MIN = 9 / 2\<rparr>,
      sizes = \<lparr>sizeof_timezone = 8, sizeof_hostname = 32, sizeof_ntpServer = 64,
                sizeof_mqttBroker = 64, sizeof_mqttUsername = 32,
                sizeof_mqttPassword = 32,
                sizeof_deviceMacAddress = 18\<rparr>\<rparr>"

text \<open>A time server that answers the first query, behind a link in the given state.\<close>

definition ntpAnswer :: "LinkStatus \<Rightarrow> NtpEnv" where
  "ntpAnswer l =
     \<lparr>ntpLink = l, ntpUpdateOK = (\<lambda>k. True), epochTime = 0, rtcEnv = rtcSilent\<rparr>"

definition ntpCall :: "nat \<Rightarrow> nat \<Rightarrow> LinkStatus \<Rightarrow> NtpCallEnv" where
  "ntpCall t t' l = \<lparr>millis1 = of_nat t, millis2 = of_nat t', ntpEnv = ntpAnswer l\<rparr>"

text \<open>
  A first boot: the record in memory is all zero and the guard byte of the store is not the
  expected constant.
\<close>

definition zeroConfig :: NetworkConfig where
  "zeroConfig =
     \<lparr>useDHCP = False, ip = IPAddress 0 0 0 0, subnet = IPAddress 0 0 0 0,
      gateway = IPAddress 0 0 0 0, dns = IPAddress 0 0 0 0, timezone = [], hostname = [],
      ntpServer = [], ntpEnabled = False, dstEnabled = False, mqttBroker = [], mqttPort = 0,
      mqttUsername = [], mqttPassword = []\<rparr>"

definition blankSys :: Sys where
  "blankSys =
     exampleSys\<lparr>networkConfig := zeroConfig,
                eeprom := \<lparr>ee_magic = 0xFF, ee_networkConfig = exampleConfig\<rparr>\<rparr>"

definition exampleSetup :: "LinkStatus \<Rightarrow> SetupEnv" where
  "exampleSetup l = \<lparr>setupBeginOK = (\<lambda>k. False), mac = (\<lambda>i. 0), setupLink = l\<rparr>"

text \<open>Requests: an MQTT update without a password, and a static configuration whose subnet mask is malformed.\<close>

definition mqttDocNoPassword :: MqttDoc where
  "mqttDocNoPassword =
     \<lparr>md_mqttBroker = Some ''10.0.0.9'', md_mqttPort = Some 8883,
      md_mqttUsername = Some ''pump'', md_mqttPassword = None\<rparr>"

definition badSubnetDoc :: NetworkDoc where
  "badSubnetDoc =
     \<lparr>nd_mode = Some ''static'', nd_ip = Some ''10.0.0.5'', nd_subnet = Some ''255.0.0'',
      nd_gateway = Some ''10.0.0.1'', nd_dns = Some ''10.0.0.1'', nd_hostname = None,
      nd_ntp = None, nd_dst = None\<rparr>"

text \<open>
  A pass of the main loop in which the cable has just been plugged in and no address can be
  obtained: the link is up, every \<^verbatim>\<open>eth.begin()\<close> fails, no request is pending.
\<close>

definition loopUpNoLease :: LoopEnv where
  "loopUpNoLease =
     \<lparr>loopLink = LinkON, ledLock = (\<lambda>k. True), loopBeginOK = (\<lambda>k. False),
      handleClient = (\<lambda>s. s), loopNtp = ntpCall 0 0 LinkON\<rparr>"






text \<open>A pass of the power task in which the supply rail reads 35 V and the other two are in band.\<close>

definition overVoltage :: PowerEnv where
  "overVoltage =
     \<lparr>avgVpsu = 35, avgV20 = 20, avgV5 = 5,
      powerLedLock = True, statusLock = True\<rparr>"

definition allOK :: PowerLocals where
  "allOK = \<lparr>local_psuOK = True, local_V20OK = True, local_V5OK = True\<rparr>"

section \<open>Properties of the clock commit\<close>

lemma sameDateTime_eq: "sameDateTime c dt \<longleftrightarrow> c = dt"
  by (cases c, cases dt) (auto simp: sameDateTime_def)

lemma globalDateTime_emit [simp]: "globalDateTime (emit e s) = globalDateTime s"
  by (simp add: emit_def)

lemma globalDateTime_debug_printf [simp]:
  "globalDateTime (debug_printf l f s) = globalDateTime s"
  by (simp add: debug_printf_def)

lemma globalDateTime_retryDelay [simp]: "globalDateTime (retryDelay r s) = globalDateTime s"
  by (simp add: retryDelay_def)

lemma attempt_flag: "fst (attempt env dt retry s) \<longleftrightarrow> readback env retry = Some dt"
  by (simp add: attempt_def Let_def sameDateTime_eq split: option.splits)

lemma attempt_globalDateTime:
  "globalDateTime (snd (attempt env dt retry s)) =
     (if readback env retry = Some dt then dt else globalDateTime s)"
  by (simp add: attempt_def Let_def sameDateTime_eq split: option.splits)

lemma verifyLoop_match:
  "\<exists>i. retry \<le> i \<and> i < maxRetries \<and> readback env i = Some dt \<Longrightarrow>
   fst (verifyLoop env dt retry s) \<and> globalDateTime (snd (verifyLoop env dt retry s)) = dt"
proof (induction env dt retry s rule: verifyLoop.induct)
  case (1 env dt retry s)
  from "1.prems" obtain i where i: "retry \<le> i" "i < maxRetries" "readback env i = Some dt"
    by blast
  then have lt: "retry < maxRetries" by simp
  obtain b s' where a: "attempt env dt retry s = (b, s')" by (cases "attempt env dt retry s")
  show ?case
  proof (cases b)
    case True
    with a attempt_flag [of env dt retry s] attempt_globalDateTime [of env dt retry s] lt
    show ?thesis by (subst (1 2) verifyLoop.simps) simp
  next
    case False
    with a attempt_flag [of env dt retry s] i have "retry \<noteq> i" by auto
    with i have ex: "\<exists>i. retry + 1 \<le> i \<and> i < maxRetries \<and> readback env i = Some dt"
      by (intro exI [of _ i]) simp
    from False a have a': "(False, s') = attempt env dt retry s" by simp
    from "1.IH" [OF lt a' _ ex] a False lt show ?thesis
      by (subst (1 2) verifyLoop.simps) simp
  qed
qed

lemma verifyLoop_no_match:
  "\<forall>i. retry \<le> i \<and> i < maxRetries \<longrightarrow> readback env i \<noteq> Some dt \<Longrightarrow>
   \<not> fst (verifyLoop env dt retry s) \<and>
   globalDateTime (snd (verifyLoop env dt retry s)) = globalDateTime s"
proof (induction env dt retry s rule: verifyLoop.induct)
  case (1 env dt retry s)
  show ?case
  proof (cases "retry < maxRetries")
    case False
    then show ?thesis by (subst (1 2) verifyLoop.simps) simp
  next
    case lt: True
    from "1.prems" have nxt:
      "\<forall>i. retry + 1 \<le> i \<and> i < maxRetries \<longrightarrow> readback env i \<noteq> Some dt"
      by simp
    from "1.prems" lt have here: "readback env retry \<noteq> Some dt" by simp
    obtain b s' where a: "attempt env dt retry s = (b, s')" by (cases "attempt env dt retry s")
    with here attempt_flag [of env dt retry s] have b: "\<not> b" by simp
    from a here attempt_globalDateTime [of env dt retry s]
    have g: "globalDateTime s' = globalDateTime s" by simp
    from b a have a': "(False, s') = attempt env dt retry s" by simp
    from "1.IH" [OF lt a' _ nxt] a b lt g show ?thesis
      by (subst (1 2) verifyLoop.simps) simp
  qed
qed

text \<open>
  Claim C1. When the lock is acquired and the read-back of one of the three attempts equals
  the value written, field by field, the commit returns success and the canonical record
  \<open>globalDateTime\<close> is that value; when no read-back of the three attempts matches, the
  commit returns failure and \<open>globalDateTime\<close> is what it was before the call.
\<close>

theorem updateGlobalDateTime_commit:
  assumes "lockAcquired env"
  shows "((\<exists>i<3. \<exists>c. readback env i = Some c \<and> sameDateTime c dt) \<longrightarrow>
            fst (updateGlobalDateTime env dt s) \<and>
            globalDateTime (snd (updateGlobalDateTime env dt s)) = dt) \<and>
         ((\<forall>i<3. \<forall>c. readback env i = Some c \<longrightarrow> \<not> sameDateTime c dt) \<longrightarrow>
            \<not> fst (updateGlobalDateTime env dt s) \<and>
            globalDateTime (snd (updateGlobalDateTime env dt s)) = globalDateTime s)"
proof -
  obtain b s1 where v: "verifyLoop env dt 0 s = (b, s1)"
    by (cases "verifyLoop env dt 0 s")
  have "fst (updateGlobalDateTime env dt s) \<and>
        globalDateTime (snd (updateGlobalDateTime env dt s)) = dt"
    if "\<exists>i<3. \<exists>c. readback env i = Some c \<and> sameDateTime c dt"
  proof -
    from that have "\<exists>i. 0 \<le> i \<and> i < maxRetries \<and> readback env i = Some dt"
      by (auto simp: sameDateTime_eq maxRetries_def)
    from verifyLoop_match [OF this, of s] v assms show ?thesis
      by (simp add: updateGlobalDateTime_def)
  qed
  moreover
  have "\<not> fst (updateGlobalDateTime env dt s) \<and>
        globalDateTime (snd (updateGlobalDateTime env dt s)) = globalDateTime s"
    if "\<forall>i<3. \<forall>c. readback env i = Some c \<longrightarrow> \<not> sameDateTime c dt"
  proof -
    from that have "\<forall>i. 0 \<le> i \<and> i < maxRetries \<longrightarrow> readback env i \<noteq> Some dt"
      by (auto simp: sameDateTime_eq maxRetries_def)
    from verifyLoop_no_match [OF this, of s] v assms show ?thesis
      by (simp add: updateGlobalDateTime_def)
  qed
  ultimately show ?thesis by blast
qed

theorem updateGlobalDateTime_commit_witness:
  "lockAcquired (rtcEcho exampleDateTime) \<and>
   (\<exists>i<3. \<exists>c. readback (rtcEcho exampleDateTime) i = Some c \<and> sameDateTime c exampleDateTime) \<and>
   fst (updateGlobalDateTime (rtcEcho exampleDateTime) exampleDateTime exampleSys) \<and>
   globalDateTime (snd (updateGlobalDateTime (rtcEcho exampleDateTime) exampleDateTime exampleSys))
     = exampleDateTime \<and>
   lockAcquired rtcSilent \<and>
   readback rtcSilent 0 = None \<and> readback rtcSilent 1 = None \<and> readback rtcSilent 2 = None \<and>
   \<not> fst (updateGlobalDateTime rtcSilent exampleDateTime exampleSys) \<and>
   globalDateTime (snd (updateGlobalDateTime rtcSilent exampleDateTime exampleSys))
     = globalDateTime exampleSys"
proof -
  have l1: "lockAcquired (rtcEcho exampleDateTime)" by (simp add: rtcEcho_def)
  have m: "\<exists>i<3. \<exists>c. readback (rtcEcho exampleDateTime) i = Some c \<and>
             sameDateTime c exampleDateTime"
    by (rule exI [of _ 1]) (simp add: rtcEcho_def sameDateTime_def)
  have l2: "lockAcquired rtcSilent" by (simp add: rtcSilent_def)
  have n: "\<forall>i<3. \<forall>c. readback rtcSilent i = Some c \<longrightarrow> \<not> sameDateTime c exampleDateTime"
    by (simp add: rtcSilent_def)
  from updateGlobalDateTime_commit [OF l1, of exampleDateTime exampleSys]
       updateGlobalDateTime_commit [OF l2, of exampleDateTime exampleSys] l1 l2 m n
  have "fst (updateGlobalDateTime (rtcEcho exampleDateTime) exampleDateTime exampleSys) \<and>
    globalDateTime (snd (updateGlobalDateTime (rtcEcho exampleDateTime) exampleDateTime exampleSys))
      = exampleDateTime \<and>
    \<not> fst (updateGlobalDateTime rtcSilent exampleDateTime exampleSys) \<and>
    globalDateTime (snd (updateGlobalDateTime rtcSilent exampleDateTime exampleSys))
      = globalDateTime exampleSys"
    by blast
  with l1 l2 m show ?thesis by (simp add: rtcSilent_def)
qed

section \<open>Properties of the time synchronisation\<close>

lemma count_emit: "count_list (trace (emit e s)) x = count_list (trace s) x + (if e = x then 1 else 0)"
  by (simp add: emit_def)

lemma queries_debug_printf [simp]:
  "count_list (trace (debug_printf l f s)) NtpQuery = count_list (trace s) NtpQuery"
  by (simp add: debug_printf_def count_emit)

lemma networkConfig_emit [simp]: "networkConfig (emit e s) = networkConfig s"
  by (simp add: emit_def)

lemma networkConfig_debug_printf [simp]: "networkConfig (debug_printf l f s) = networkConfig s"
  by (simp add: debug_printf_def)

lemma networkConfig_retryDelay [simp]: "networkConfig (retryDelay r s) = networkConfig s"
  by (simp add: retryDelay_def)

lemma networkConfig_attempt [simp]:
  "networkConfig (snd (attempt env dt retry s)) = networkConfig s"
  by (simp add: attempt_def Let_def split: option.splits)

lemma networkConfig_verifyLoop [simp]:
  "networkConfig (snd (verifyLoop env dt retry s)) = networkConfig s"
proof (induction env dt retry s rule: verifyLoop.induct)
  case (1 env dt retry s)
  obtain b s' where a: "attempt env dt retry s = (b, s')" by (cases "attempt env dt retry s")
  with networkConfig_attempt [of env dt retry s] have n: "networkConfig s' = networkConfig s"
    by simp
  show ?case
  proof (cases "retry < maxRetries \<and> \<not> b")
    case True
    with a have a': "(False, s') = attempt env dt retry s" by simp
    from True "1.IH" [OF _ a'] a n show ?thesis
      by (subst verifyLoop.simps) simp
  next
    case False
    with a n show ?thesis by (subst verifyLoop.simps) auto
  qed
qed

lemma networkConfig_updateGlobalDateTime [simp]:
  "networkConfig (snd (updateGlobalDateTime env dt s)) = networkConfig s"
proof -
  obtain b s1 where v: "verifyLoop env dt 0 s = (b, s1)" by (cases "verifyLoop env dt 0 s")
  with networkConfig_verifyLoop [of env dt 0 s] show ?thesis
    by (simp add: updateGlobalDateTime_def)
qed

lemma networkConfig_ntpRetry [simp]: "networkConfig (snd (ntpRetry env i s)) = networkConfig s"
proof (induction env i s rule: ntpRetry.induct)
  case (1 env i s)
  show ?case
  proof (cases "i < 3 \<and> \<not> ntpUpdateOK env (i + 1)")
    case True
    with "1.IH" [OF _ refl] show ?thesis by (subst ntpRetry.simps) (simp add: Let_def)
  next
    case False
    then show ?thesis by (subst ntpRetry.simps) (auto simp: Let_def)
  qed
qed

lemma networkConfig_ntpQuery [simp]: "networkConfig (snd (ntpQuery env s)) = networkConfig s"
proof -
  let ?s2 = "debug_printf LOG_WARNING ''Failed to get time from NTP server, retrying\<newline>''
               (emit NtpQuery s)"
  obtain b s3 where r: "ntpRetry env 0 ?s2 = (b, s3)" by (cases "ntpRetry env 0 ?s2")
  with networkConfig_ntpRetry [of env 0 ?s2] show ?thesis
    by (simp add: ntpQuery_def Let_def)
qed

lemma networkConfig_ntpApply [simp]: "networkConfig (ntpApply p env s) = networkConfig s"
proof -
  obtain b s1 where u: "updateGlobalDateTime (rtcEnv env) (ntpLocalTime p env s) s = (b, s1)"
    by (cases "updateGlobalDateTime (rtcEnv env) (ntpLocalTime p env s) s")
  with networkConfig_updateGlobalDateTime [of "rtcEnv env" "ntpLocalTime p env s" s]
  show ?thesis by (simp add: ntpApply_def Let_def)
qed

lemma networkConfig_ntpUpdate [simp]: "networkConfig (ntpUpdate p env s) = networkConfig s"
proof -
  define s0 where
    "s0 = (if \<not> clientInitialized s then (emit NtpBegin s)\<lparr>clientInitialized := True\<rparr> else s)"
  have n0: "networkConfig s0 = networkConfig s" by (simp add: s0_def)
  obtain b s1 where q: "ntpQuery env s0 = (b, s1)" by (cases "ntpQuery env s0")
  with networkConfig_ntpQuery [of env s0] n0 have "networkConfig s1 = networkConfig s" by simp
  with q n0 show ?thesis
    by (simp add: ntpUpdate_def Let_def s0_def [symmetric])
qed

text \<open>What \<^verbatim>\<open>ntpUpdate\<close> does when the link status converts to false.\<close>

lemma ntpUpdate_link_false:
  "linkValue p (ntpLink env) = 0 \<Longrightarrow>
   ntpUpdate p env s =
     (if \<not> clientInitialized s then (emit NtpBegin s)\<lparr>clientInitialized := True\<rparr> else s)"
  by (simp add: ntpUpdate_def Let_def)

lemma elapsed_small:
  fixes M :: "32 word"
  assumes "t' \<le> t" and "t - t' < unat M"
  shows "(of_nat t :: 32 word) - of_nat t' < M"
proof -
  from assms(1) have "(of_nat t :: 32 word) - of_nat t' = of_nat (t - t')"
    by (simp add: of_nat_diff)
  moreover have "unat (of_nat (t - t') :: 32 word) \<le> t - t'"
    by (simp add: unat_of_nat)
  ultimately show ?thesis using assms(2) by (simp add: word_less_nat_alt)
qed

lemma handleNTPUpdates_hard_minimum:
  "millis1 env - ntpUpdateTimestamp s < NTP_MIN_SYNC_INTERVAL p \<Longrightarrow>
   count_list (trace (handleNTPUpdates p env force s)) NtpQuery = count_list (trace s) NtpQuery"
  by (simp add: handleNTPUpdates_def Let_def)

lemma handleNTPUpdates_cases:
  "handleNTPUpdates p env force s = s \<or>
   handleNTPUpdates p env force s =
     debug_printf LOG_INFO ''Time since last NTP update: %ds - skipping\<newline>'' s \<or>
   handleNTPUpdates p env force s =
     (ntpUpdate p (ntpEnv env) s)\<lparr>ntpUpdateTimestamp := millis2 env\<rparr>"
  by (simp add: handleNTPUpdates_def Let_def)

lemma ntpUpdateTimestamp_emit [simp]: "ntpUpdateTimestamp (emit e s) = ntpUpdateTimestamp s"
  by (simp add: emit_def)

lemma ntpUpdateTimestamp_debug_printf [simp]:
  "ntpUpdateTimestamp (debug_printf l f s) = ntpUpdateTimestamp s"
  by (simp add: debug_printf_def)

text \<open>
  Claim C6. Two consecutive calls of \<^verbatim>\<open>handleNTPUpdates(false)\<close>, the second starting less
  than \<^verbatim>\<open>NTP_MIN_SYNC_INTERVAL\<close> milliseconds after the first started, query the time server
  in at most one of the two calls; and a call that finds less than
  \<^verbatim>\<open>NTP_MIN_SYNC_INTERVAL\<close> elapsed since the last update queries nothing, forced or not.
  Times are milliseconds since boot; \<^verbatim>\<open>millis()\<close> is the time modulo \<open>2 ^ 32\<close>.
\<close>

theorem handleNTPUpdates_rate_limit:
  "(t1 \<le> t1' \<and> t1' \<le> t2 \<and> t2 - t1 < unat (NTP_MIN_SYNC_INTERVAL p) \<and>
    millis1 e1 = of_nat t1 \<and> millis2 e1 = of_nat t1' \<and> millis1 e2 = of_nat t2 \<longrightarrow>
      count_list (trace (handleNTPUpdates p e1 False s)) NtpQuery = count_list (trace s) NtpQuery \<or>
      count_list (trace (handleNTPUpdates p e2 False (handleNTPUpdates p e1 False s))) NtpQuery =
        count_list (trace (handleNTPUpdates p e1 False s)) NtpQuery) \<and>
   (millis1 e - ntpUpdateTimestamp s < NTP_MIN_SYNC_INTERVAL p \<longrightarrow>
      count_list (trace (handleNTPUpdates p e True s)) NtpQuery = count_list (trace s) NtpQuery)"
proof (intro conjI impI)
  assume h: "t1 \<le> t1' \<and> t1' \<le> t2 \<and> t2 - t1 < unat (NTP_MIN_SYNC_INTERVAL p) \<and>
    millis1 e1 = of_nat t1 \<and> millis2 e1 = of_nat t1' \<and> millis1 e2 = of_nat t2"
  let ?s1 = "handleNTPUpdates p e1 False s"
  from handleNTPUpdates_cases [of p e1 False s]
  consider (same) "?s1 = s"
    | (skip) "?s1 = debug_printf LOG_INFO ''Time since last NTP update: %ds - skipping\<newline>'' s"
    | (sync) "?s1 = (ntpUpdate p (ntpEnv e1) s)\<lparr>ntpUpdateTimestamp := millis2 e1\<rparr>"
    by blast
  then show "count_list (trace ?s1) NtpQuery = count_list (trace s) NtpQuery \<or>
      count_list (trace (handleNTPUpdates p e2 False ?s1)) NtpQuery =
        count_list (trace ?s1) NtpQuery"
  proof cases
    case same
    then show ?thesis by simp
  next
    case skip
    then show ?thesis by simp
  next
    case sync
    then have ts: "ntpUpdateTimestamp ?s1 = of_nat t1'" using h by simp
    from h have "t2 - t1' < unat (NTP_MIN_SYNC_INTERVAL p)" by linarith
    with h have "(of_nat t2 :: 32 word) - of_nat t1' < NTP_MIN_SYNC_INTERVAL p"
      by (intro elapsed_small) simp_all
    with ts h have "millis1 e2 - ntpUpdateTimestamp ?s1 < NTP_MIN_SYNC_INTERVAL p" by simp
    from handleNTPUpdates_hard_minimum [OF this] show ?thesis by blast
  qed
next
  assume "millis1 e - ntpUpdateTimestamp s < NTP_MIN_SYNC_INTERVAL p"
  then show "count_list (trace (handleNTPUpdates p e True s)) NtpQuery = count_list (trace s) NtpQuery"
    by (rule handleNTPUpdates_hard_minimum)
qed

theorem handleNTPUpdates_rate_limit_witness:
  "((3600001::nat) \<le> 3600005 \<and> (3600005::nat) \<le> 3610000 \<and>
    (3610000::nat) - 3600001 < unat (NTP_MIN_SYNC_INTERVAL examplePlatform) \<and>
    millis1 (ntpCall 3600001 3600005 LinkON) = of_nat 3600001 \<and>
    millis2 (ntpCall 3600001 3600005 LinkON) = of_nat 3600005 \<and>
    millis1 (ntpCall 3610000 3610000 LinkON) = of_nat 3610000) \<and>
   (count_list (trace (handleNTPUpdates examplePlatform (ntpCall 3600001 3600005 LinkON) False
        exampleSys)) NtpQuery = count_list (trace exampleSys) NtpQuery \<or>
    count_list (trace (handleNTPUpdates examplePlatform (ntpCall 3610000 3610000 LinkON) False
        (handleNTPUpdates examplePlatform (ntpCall 3600001 3600005 LinkON) False exampleSys)))
        NtpQuery =
      count_list (trace (handleNTPUpdates examplePlatform (ntpCall 3600001 3600005 LinkON) False
        exampleSys)) NtpQuery) \<and>
   millis1 (ntpCall 5000 5000 LinkON) - ntpUpdateTimestamp exampleSys
     < NTP_MIN_SYNC_INTERVAL examplePlatform \<and>
   count_list (trace (handleNTPUpdates examplePlatform (ntpCall 5000 5000 LinkON) True exampleSys))
     NtpQuery = count_list (trace exampleSys) NtpQuery"
proof -
  have h1: "(3600001::nat) \<le> 3600005 \<and> (3600005::nat) \<le> 3610000 \<and>
    (3610000::nat) - 3600001 < unat (NTP_MIN_SYNC_INTERVAL examplePlatform) \<and>
    millis1 (ntpCall 3600001 3600005 LinkON) = of_nat 3600001 \<and>
    millis2 (ntpCall 3600001 3600005 LinkON) = of_nat 3600005 \<and>
    millis1 (ntpCall 3610000 3610000 LinkON) = of_nat 3610000"
    by (simp add: ntpCall_def examplePlatform_def)
  have h2: "millis1 (ntpCall 5000 5000 LinkON) - ntpUpdateTimestamp exampleSys
     < NTP_MIN_SYNC_INTERVAL examplePlatform"
    by (simp add: ntpCall_def examplePlatform_def exampleSys_def)
  from handleNTPUpdates_rate_limit [of 3600001 3600005 3610000 examplePlatform
      "ntpCall 3600001 3600005 LinkON" "ntpCall 3610000 3610000 LinkON" exampleSys
      "ntpCall 5000 5000 LinkON"] h1 h2
  show ?thesis by blast
qed

lemma queries_attempt:
  "count_list (trace (snd (attempt env dt retry s))) NtpQuery = count_list (trace s) NtpQuery"
  by (simp add: attempt_def Let_def retryDelay_def debug_printf_def count_emit emit_def
      split: option.splits)

lemma queries_verifyLoop:
  "count_list (trace (snd (verifyLoop env dt retry s))) NtpQuery = count_list (trace s) NtpQuery"
proof (induction env dt retry s rule: verifyLoop.induct)
  case (1 env dt retry s)
  obtain b s' where a: "attempt env dt retry s = (b, s')" by (cases "attempt env dt retry s")
  with queries_attempt [of env dt retry s]
  have n: "count_list (trace s') NtpQuery = count_list (trace s) NtpQuery" by simp
  show ?case
  proof (cases "retry < maxRetries \<and> \<not> b")
    case True
    with a have a': "(False, s') = attempt env dt retry s" by simp
    from True "1.IH" [OF _ a'] a n show ?thesis
      by (subst verifyLoop.simps) simp
  next
    case False
    with a n show ?thesis by (subst verifyLoop.simps) auto
  qed
qed

lemma queries_updateGlobalDateTime:
  "count_list (trace (snd (updateGlobalDateTime env dt s))) NtpQuery = count_list (trace s) NtpQuery"
proof -
  obtain b s1 where v: "verifyLoop env dt 0 s = (b, s1)" by (cases "verifyLoop env dt 0 s")
  with queries_verifyLoop [of env dt 0 s] show ?thesis
    by (simp add: updateGlobalDateTime_def)
qed

lemma queries_ntpApply:
  "count_list (trace (ntpApply p env s)) NtpQuery = count_list (trace s) NtpQuery"
proof -
  obtain b s1 where u: "updateGlobalDateTime (rtcEnv env) (ntpLocalTime p env s) s = (b, s1)"
    by (cases "updateGlobalDateTime (rtcEnv env) (ntpLocalTime p env s) s")
  with queries_updateGlobalDateTime [of "rtcEnv env" "ntpLocalTime p env s" s]
  show ?thesis by (simp add: ntpApply_def Let_def)
qed

text \<open>
  Claim C5, as stated, fails: a call of \<^verbatim>\<open>handleNTPUpdates\<close> that passes the two interval
  tests sets \<^verbatim>\<open>ntpUpdateTimestamp\<close> after \<^verbatim>\<open>ntpUpdate\<close> returns, whatever \<^verbatim>\<open>ntpUpdate\<close> did, also
  when the link is down. With \<open>LinkOFF\<close> numbered zero no query is sent and the timestamp
  moves. With \<open>LinkOFF\<close> numbered two the timestamp moves as well, and the guard
  \<^verbatim>\<open>!eth.linkStatus()\<close> lets the call through: a query is sent while the link is down.
\<close>

theorem handleNTPUpdates_link_down_counterexample:
  "ntpLink (ntpEnv (ntpCall 3600001 3600005 LinkOFF)) = LinkOFF \<and>
   count_list (trace (handleNTPUpdates (examplePlatform\<lparr>linkValue := linkBool\<rparr>)
      (ntpCall 3600001 3600005 LinkOFF) False exampleSys)) NtpQuery = 0 \<and>
   ntpUpdateTimestamp (handleNTPUpdates (examplePlatform\<lparr>linkValue := linkBool\<rparr>)
      (ntpCall 3600001 3600005 LinkOFF) False exampleSys) \<noteq> ntpUpdateTimestamp exampleSys \<and>
   ntpUpdateTimestamp (handleNTPUpdates examplePlatform
      (ntpCall 3600001 3600005 LinkOFF) False exampleSys) \<noteq> ntpUpdateTimestamp exampleSys \<and>
   count_list (trace (handleNTPUpdates examplePlatform
      (ntpCall 3600001 3600005 LinkOFF) False exampleSys)) NtpQuery = 1"
proof -
  have 1: "ntpLink (ntpEnv (ntpCall 3600001 3600005 LinkOFF)) = LinkOFF \<and>
   count_list (trace (handleNTPUpdates (examplePlatform\<lparr>linkValue := linkBool\<rparr>)
      (ntpCall 3600001 3600005 LinkOFF) False exampleSys)) NtpQuery = 0 \<and>
   ntpUpdateTimestamp (handleNTPUpdates (examplePlatform\<lparr>linkValue := linkBool\<rparr>)
      (ntpCall 3600001 3600005 LinkOFF) False exampleSys) \<noteq> ntpUpdateTimestamp exampleSys \<and>
   ntpUpdateTimestamp (handleNTPUpdates examplePlatform
      (ntpCall 3600001 3600005 LinkOFF) False exampleSys) \<noteq> ntpUpdateTimestamp exampleSys"
    by (simp add: handleNTPUpdates_def ntpUpdate_link_false Let_def ntpCall_def ntpAnswer_def
        examplePlatform_def exampleSys_def exampleConfig_def linkBool_def emit_def)
  let ?s1 = "emit NtpQuery ((emit NtpBegin exampleSys)\<lparr>clientInitialized := True\<rparr>)"
  have q: "ntpUpdate examplePlatform (ntpAnswer LinkOFF) exampleSys =
             ntpApply examplePlatform (ntpAnswer LinkOFF) ?s1"
    by (simp add: ntpUpdate_def ntpQuery_def Let_def ntpAnswer_def examplePlatform_def
        linkOrder_def exampleSys_def)
  have "count_list (trace ?s1) NtpQuery = 1"
    by (simp add: emit_def exampleSys_def)
  with q queries_ntpApply [of examplePlatform "ntpAnswer LinkOFF" ?s1]
  have "count_list (trace (ntpUpdate examplePlatform (ntpAnswer LinkOFF) exampleSys)) NtpQuery = 1"
    by simp
  then have 2: "count_list (trace (handleNTPUpdates examplePlatform
      (ntpCall 3600001 3600005 LinkOFF) False exampleSys)) NtpQuery = 1"
    by (simp add: handleNTPUpdates_def Let_def ntpCall_def examplePlatform_def exampleSys_def
        exampleConfig_def)
  from 1 2 show ?thesis by simp
qed

text \<open>
  Claim C5, amended. A call of \<^verbatim>\<open>handleNTPUpdates\<close> while the link is down (the link status
  is \<^verbatim>\<open>LinkOFF\<close>) sets the timestamp of the last update to the second reading of \<^verbatim>\<open>millis()\<close>
  whenever synchronisation is enabled and the two interval tests pass, so that the cycle
  counts for the rate limit; otherwise the timestamp is unchanged. When \<^verbatim>\<open>LinkOFF\<close> converts
  to false in the guard \<^verbatim>\<open>!eth.linkStatus()\<close> of \<^verbatim>\<open>ntpUpdate\<close>, the call sends no query to the
  time server and leaves the clock alone: the trace grows by nothing, by the line that
  reports a skipped update, or by the one-time \<^verbatim>\<open>timeClient.begin()\<close>.
\<close>

theorem handleNTPUpdates_link_down:
  assumes "ntpLink (ntpEnv env) = LinkOFF"
  shows "ntpUpdateTimestamp (handleNTPUpdates p env force s) =
           (if ntpEnabled (networkConfig s) \<and>
               (millis1 env - ntpUpdateTimestamp s > NTP_UPDATE_INTERVAL p \<or> force) \<and>
               \<not> millis1 env - ntpUpdateTimestamp s < NTP_MIN_SYNC_INTERVAL p
            then millis2 env else ntpUpdateTimestamp s) \<and>
         (linkValue p LinkOFF = 0 \<longrightarrow>
            (trace (handleNTPUpdates p env force s) = trace s \<or>
             trace (handleNTPUpdates p env force s) =
               trace s @ [Log LOG_INFO ''Time since last NTP update: %ds - skipping\<newline>''] \<or>
             trace (handleNTPUpdates p env force s) = trace s @ [NtpBegin]) \<and>
            globalDateTime (handleNTPUpdates p env force s) = globalDateTime s)"
proof (intro conjI impI)
  show "ntpUpdateTimestamp (handleNTPUpdates p env force s) =
           (if ntpEnabled (networkConfig s) \<and>
               (millis1 env - ntpUpdateTimestamp s > NTP_UPDATE_INTERVAL p \<or> force) \<and>
               \<not> millis1 env - ntpUpdateTimestamp s < NTP_MIN_SYNC_INTERVAL p
            then millis2 env else ntpUpdateTimestamp s)"
    by (simp add: handleNTPUpdates_def Let_def)
next
  assume "linkValue p LinkOFF = 0"
  with assms have z: "linkValue p (ntpLink (ntpEnv env)) = 0" by simp
  show "trace (handleNTPUpdates p env force s) = trace s \<or>
        trace (handleNTPUpdates p env force s) =
          trace s @ [Log LOG_INFO ''Time since last NTP update: %ds - skipping\<newline>''] \<or>
        trace (handleNTPUpdates p env force s) = trace s @ [NtpBegin]"
    by (simp add: handleNTPUpdates_def ntpUpdate_link_false [OF z] Let_def emit_def
        debug_printf_def)
  show "globalDateTime (handleNTPUpdates p env force s) = globalDateTime s"
    by (simp add: handleNTPUpdates_def ntpUpdate_link_false [OF z] Let_def)
qed

theorem handleNTPUpdates_link_down_witness:
  "ntpLink (ntpEnv (ntpCall 3600001 3600005 LinkOFF)) = LinkOFF \<and>
   linkValue (examplePlatform\<lparr>linkValue := linkBool\<rparr>) LinkOFF = 0 \<and>
   ntpUpdateTimestamp (handleNTPUpdates (examplePlatform\<lparr>linkValue := linkBool\<rparr>)
     (ntpCall 3600001 3600005 LinkOFF) False exampleSys) = 3600005 \<and>
   globalDateTime (handleNTPUpdates (examplePlatform\<lparr>linkValue := linkBool\<rparr>)
     (ntpCall 3600001 3600005 LinkOFF) False exampleSys) = globalDateTime exampleSys \<and>
   ntpUpdateTimestamp (handleNTPUpdates examplePlatform
     (ntpCall 3600001 3600005 LinkOFF) False exampleSys) = 3600005"
proof -
  have h: "ntpLink (ntpEnv (ntpCall 3600001 3600005 LinkOFF)) = LinkOFF"
    by (simp add: ntpCall_def ntpAnswer_def)
  have z: "linkValue (examplePlatform\<lparr>linkValue := linkBool\<rparr>) LinkOFF = 0"
    by (simp add: linkBool_def)
  have g: "ntpEnabled (networkConfig exampleSys)" "ntpUpdateTimestamp exampleSys = 0"
    "millis1 (ntpCall 3600001 3600005 LinkOFF) = 3600001"
    "millis2 (ntpCall 3600001 3600005 LinkOFF) = 3600005"
    by (simp_all add: exampleSys_def exampleConfig_def ntpCall_def)
  have c: "NTP_UPDATE_INTERVAL (examplePlatform\<lparr>linkValue := linkBool\<rparr>) = 3600000"
    "NTP_MIN_SYNC_INTERVAL (examplePlatform\<lparr>linkValue := linkBool\<rparr>) = 70000"
    "NTP_UPDATE_INTERVAL examplePlatform = 3600000"
    "NTP_MIN_SYNC_INTERVAL examplePlatform = 70000"
    by (simp_all add: examplePlatform_def)
  from handleNTPUpdates_link_down [OF h, of "examplePlatform\<lparr>linkValue := linkBool\<rparr>" False
      exampleSys]
    handleNTPUpdates_link_down [OF h, of examplePlatform False exampleSys] h z g c
  show ?thesis by simp
qed

section \<open>Properties of the stored configuration\<close>

lemma emit_fields [simp]:
  "clientInitialized (emit e s) = clientInitialized s"
  "ethernetConnected (emit e s) = ethernetConnected s"
  "deviceMacAddress (emit e s) = deviceMacAddress s"
  "eeprom (emit e s) = eeprom s"
  "status (emit e s) = status s"
  "trace (emit e s) = trace s @ [e]"
  by (simp_all add: emit_def)

lemma debug_printf_fields [simp]:
  "clientInitialized (debug_printf l f s) = clientInitialized s"
  "ethernetConnected (debug_printf l f s) = ethernetConnected s"
  "deviceMacAddress (debug_printf l f s) = deviceMacAddress s"
  "eeprom (debug_printf l f s) = eeprom s"
  "status (debug_printf l f s) = status s"
  "trace (debug_printf l f s) = trace s @ [Log l f]"
  by (simp_all add: debug_printf_def)

lemma debugPrintNetConfig_fields [simp]:
  "globalDateTime (debugPrintNetConfig s) = globalDateTime s"
  "networkConfig (debugPrintNetConfig s) = networkConfig s"
  "ntpUpdateTimestamp (debugPrintNetConfig s) = ntpUpdateTimestamp s"
  "clientInitialized (debugPrintNetConfig s) = clientInitialized s"
  "ethernetConnected (debugPrintNetConfig s) = ethernetConnected s"
  "deviceMacAddress (debugPrintNetConfig s) = deviceMacAddress s"
  "eeprom (debugPrintNetConfig s) = eeprom s"
  "status (debugPrintNetConfig s) = status s"
  by (simp_all add: debugPrintNetConfig_def)

lemma saveNetworkConfig_fields [simp]:
  "globalDateTime (saveNetworkConfig p s) = globalDateTime s"
  "networkConfig (saveNetworkConfig p s) = networkConfig s"
  "ntpUpdateTimestamp (saveNetworkConfig p s) = ntpUpdateTimestamp s"
  "ethernetConnected (saveNetworkConfig p s) = ethernetConnected s"
  "status (saveNetworkConfig p s) = status s"
  "eeprom (saveNetworkConfig p s) =
     \<lparr>ee_magic = EE_MAGIC_NUMBER p, ee_networkConfig = networkConfig s\<rparr>"
  by (simp_all add: saveNetworkConfig_def Let_def)

lemma applyNetworkConfig_fields [simp]:
  "globalDateTime (snd (applyNetworkConfig b s)) = globalDateTime s"
  "networkConfig (snd (applyNetworkConfig b s)) = networkConfig s"
  "ntpUpdateTimestamp (snd (applyNetworkConfig b s)) = ntpUpdateTimestamp s"
  "ethernetConnected (snd (applyNetworkConfig b s)) = ethernetConnected s"
  "eeprom (snd (applyNetworkConfig b s)) = eeprom s"
  "status (snd (applyNetworkConfig b s)) = status s"
  by (simp_all add: applyNetworkConfig_def Let_def)

lemma loadNetworkConfig_mismatch:
  "ee_magic (eeprom s) \<noteq> EE_MAGIC_NUMBER p \<Longrightarrow>
   loadNetworkConfig p s =
     (False, debug_printf LOG_INFO ''Magic number: %x\<newline>''
               (debug_printf LOG_INFO ''Loading network configuration:\<newline>'' s))"
  by (simp add: loadNetworkConfig_def Let_def)

lemma setupEthernet_networkConfig:
  "networkConfig (setupEthernet p env s) =
     (if fst (loadNetworkConfig p s) then networkConfig (snd (loadNetworkConfig p s))
      else defaultNetworkConfig (networkConfig (snd (loadNetworkConfig p s))))"
proof -
  obtain b s1 where l: "loadNetworkConfig p s = (b, s1)" by (cases "loadNetworkConfig p s")
  define s3 where "s3 = emit (EthHostname (hostname (networkConfig
      (if \<not> b then saveNetworkConfig p
         ((debug_printf LOG_INFO ''Invalid network configuration, using defaults\<newline>'' s1)
            \<lparr>networkConfig := defaultNetworkConfig (networkConfig s1)\<rparr>) else s1))))
     (emit EthSpiInit (if \<not> b then saveNetworkConfig p
         ((debug_printf LOG_INFO ''Invalid network configuration, using defaults\<newline>'' s1)
            \<lparr>networkConfig := defaultNetworkConfig (networkConfig s1)\<rparr>) else s1))"
  obtain a s4 where ap: "applyNetworkConfig (setupBeginOK env) s3 = (a, s4)"
    by (cases "applyNetworkConfig (setupBeginOK env) s3")
  from applyNetworkConfig_fields(2) [of "setupBeginOK env" s3] ap
  have "networkConfig s4 = networkConfig s3" by simp
  with l ap show ?thesis
    by (simp add: setupEthernet_def Let_def s3_def [symmetric]) (simp add: s3_def)
qed

lemma setupEthernet_eeprom:
  "eeprom (setupEthernet p env s) =
     (if fst (loadNetworkConfig p s) then eeprom (snd (loadNetworkConfig p s))
      else \<lparr>ee_magic = EE_MAGIC_NUMBER p,
            ee_networkConfig = defaultNetworkConfig (networkConfig (snd (loadNetworkConfig p s)))\<rparr>)"
proof -
  obtain b s1 where l: "loadNetworkConfig p s = (b, s1)" by (cases "loadNetworkConfig p s")
  define s3 where "s3 = emit (EthHostname (hostname (networkConfig
      (if \<not> b then saveNetworkConfig p
         ((debug_printf LOG_INFO ''Invalid network configuration, using defaults\<newline>'' s1)
            \<lparr>networkConfig := defaultNetworkConfig (networkConfig s1)\<rparr>) else s1))))
     (emit EthSpiInit (if \<not> b then saveNetworkConfig p
         ((debug_printf LOG_INFO ''Invalid network configuration, using defaults\<newline>'' s1)
            \<lparr>networkConfig := defaultNetworkConfig (networkConfig s1)\<rparr>) else s1))"
  obtain a s4 where ap: "applyNetworkConfig (setupBeginOK env) s3 = (a, s4)"
    by (cases "applyNetworkConfig (setupBeginOK env) s3")
  from applyNetworkConfig_fields(5) [of "setupBeginOK env" s3] ap
  have "eeprom s4 = eeprom s3" by simp
  with l ap show ?thesis
    by (simp add: setupEthernet_def Let_def s3_def [symmetric]) (simp add: s3_def)
qed

text \<open>
  Claim C7. When the guard byte of the store is not \<^verbatim>\<open>EE_MAGIC_NUMBER\<close>, \<^verbatim>\<open>loadNetworkConfig\<close>
  returns false and leaves the record in memory and the store as they were; \<^verbatim>\<open>setupEthernet\<close>
  then installs the defaults in the record in memory (DHCP, address 192.168.1.100, mask
  255.255.255.0, gateway 192.168.1.1, DNS 8.8.8.8, time zone +13:00, host name open-reactor,
  time server pool.ntp.org, synchronisation and daylight saving off; the MQTT fields keep
  their values) and saves it at once, so that afterwards the stored record equals the live
  one and the guard byte is set.
\<close>

theorem setupEthernet_defaults_saved:
  assumes "ee_magic (eeprom s) \<noteq> EE_MAGIC_NUMBER p"
  shows "\<not> fst (loadNetworkConfig p s) \<and>
         networkConfig (snd (loadNetworkConfig p s)) = networkConfig s \<and>
         eeprom (snd (loadNetworkConfig p s)) = eeprom s \<and>
         networkConfig (setupEthernet p env s) =
           (networkConfig s)
             \<lparr>useDHCP := True, ip := IPAddress 192 168 1 100, subnet := IPAddress 255 255 255 0,
              gateway := IPAddress 192 168 1 1, dns := IPAddress 8 8 8 8,
              timezone := ''+13:00'', hostname := ''open-reactor'',
              ntpServer := ''pool.ntp.org'', ntpEnabled := False, dstEnabled := False\<rparr> \<and>
         ee_networkConfig (eeprom (setupEthernet p env s)) = networkConfig (setupEthernet p env s) \<and>
         ee_magic (eeprom (setupEthernet p env s)) = EE_MAGIC_NUMBER p"
  using assms
  by (simp add: setupEthernet_networkConfig setupEthernet_eeprom loadNetworkConfig_mismatch
      defaultNetworkConfig_def)

theorem setupEthernet_defaults_saved_witness:
  "ee_magic (eeprom blankSys) \<noteq> EE_MAGIC_NUMBER examplePlatform \<and>
   \<not> fst (loadNetworkConfig examplePlatform blankSys) \<and>
   networkConfig (setupEthernet examplePlatform (exampleSetup LinkON) blankSys) =
     \<lparr>useDHCP = True, ip = IPAddress 192 168 1 100, subnet = IPAddress 255 255 255 0,
      gateway = IPAddress 192 168 1 1, dns = IPAddress 8 8 8 8, timezone = ''+13:00'',
      hostname = ''open-reactor'', ntpServer = ''pool.ntp.org'', ntpEnabled = False,
      dstEnabled = False, mqttBroker = [], mqttPort = 0, mqttUsername = [],
      mqttPassword = []\<rparr> \<and>
   eeprom (setupEthernet examplePlatform (exampleSetup LinkON) blankSys) =
     \<lparr>ee_magic = 0x55,
      ee_networkConfig =
        \<lparr>useDHCP = True, ip = IPAddress 192 168 1 100, subnet = IPAddress 255 255 255 0,
         gateway = IPAddress 192 168 1 1, dns = IPAddress 8 8 8 8, timezone = ''+13:00'',
         hostname = ''open-reactor'', ntpServer = ''pool.ntp.org'', ntpEnabled = False,
         dstEnabled = False, mqttBroker = [], mqttPort = 0, mqttUsername = [],
         mqttPassword = []\<rparr>\<rparr>"
proof -
  have h: "ee_magic (eeprom blankSys) \<noteq> EE_MAGIC_NUMBER examplePlatform"
    by (simp add: blankSys_def examplePlatform_def)
  have n: "networkConfig blankSys = zeroConfig"
    by (simp add: blankSys_def)
  have m: "EE_MAGIC_NUMBER examplePlatform = 0x55" by (simp add: examplePlatform_def)
  from setupEthernet_defaults_saved [OF h, of "exampleSetup LinkON"] h n m
  show ?thesis
    by (cases "eeprom (setupEthernet examplePlatform (exampleSetup LinkON) blankSys)")
       (simp add: zeroConfig_def)
qed

section \<open>Properties of the configuration API\<close>

text \<open>
  Claim C10. A request to \<^verbatim>\<open>POST /api/mqtt\<close> whose document has no \<^verbatim>\<open>mqttPassword\<close>, or an
  empty one, is answered with status 200; broker, port and user name of the live record are
  set from the request, its password is what it was before, and the record is saved.
\<close>

theorem mqttPost_keeps_password:
  assumes "md_mqttPassword doc = None \<or> md_mqttPassword doc = Some []"
  shows "mqttPassword (networkConfig (mqttPost p (Doc doc) s)) = mqttPassword (networkConfig s) \<and>
         mqttBroker (networkConfig (mqttPost p (Doc doc) s)) =
           strlcpy (orDefault (md_mqttBroker doc) []) (sizeof_mqttBroker (sizes p)) \<and>
         mqttPort (networkConfig (mqttPost p (Doc doc) s)) =
           word_of_int (orDefault (md_mqttPort doc) 1883) \<and>
         mqttUsername (networkConfig (mqttPost p (Doc doc) s)) =
           strlcpy (orDefault (md_mqttUsername doc) []) (sizeof_mqttUsername (sizes p)) \<and>
         ee_networkConfig (eeprom (mqttPost p (Doc doc) s)) =
           networkConfig (mqttPost p (Doc doc) s) \<and>
         (\<exists>body. last (trace (mqttPost p (Doc doc) s)) = HttpSend 200 body)"
  using assms by (auto simp: mqttPost_def Let_def orDefault_def)

theorem mqttPost_keeps_password_witness:
  "(md_mqttPassword mqttDocNoPassword = None \<or> md_mqttPassword mqttDocNoPassword = Some []) \<and>
   mqttPassword (networkConfig (mqttPost examplePlatform (Doc mqttDocNoPassword) exampleSys)) =
     ''secret'' \<and>
   mqttBroker (networkConfig (mqttPost examplePlatform (Doc mqttDocNoPassword) exampleSys)) =
     ''10.0.0.9'' \<and>
   mqttPort (networkConfig (mqttPost examplePlatform (Doc mqttDocNoPassword) exampleSys)) = 8883 \<and>
   mqttUsername (networkConfig (mqttPost examplePlatform (Doc mqttDocNoPassword) exampleSys)) =
     ''pump''"
proof -
  have h: "md_mqttPassword mqttDocNoPassword = None \<or> md_mqttPassword mqttDocNoPassword = Some []"
    by (simp add: mqttDocNoPassword_def)
  from mqttPost_keeps_password [OF h, of examplePlatform exampleSys] h show ?thesis
    by (simp add: mqttDocNoPassword_def examplePlatform_def exampleSys_def exampleConfig_def
        orDefault_def strlcpy_def)
qed

text \<open>A rejected request to \<^verbatim>\<open>POST /api/network\<close> is never saved.\<close>

lemma networkPost_rejected_not_saved:
  assumes "nd_mode doc \<noteq> Some ''dhcp''"
    and "fst (parseAddresses p doc ((networkConfig s)\<lparr>useDHCP := False\<rparr>)) = Some err"
  shows "eeprom (networkPost p (Doc doc) s) = eeprom s"
proof -
  obtain e cfg where pa: "parseAddresses p doc ((networkConfig s)\<lparr>useDHCP := False\<rparr>) = (e, cfg)"
    by (cases "parseAddresses p doc ((networkConfig s)\<lparr>useDHCP := False\<rparr>)")
  with assms show ?thesis by (simp add: networkPost_def)
qed

text \<open>
  Claim C3 at a request for a static configuration with a well-formed address and a
  malformed subnet mask, on a device configured for DHCP. The request is answered with
  status 400 and the store is untouched, as the claim says; the live record, however, has
  left DHCP mode and carries the address of the rejected request.
\<close>

theorem networkPost_malformed_subnet:
  "fst (fromString (libc examplePlatform) ''10.0.0.5'' (ip exampleConfig)) \<and>
   \<not> fst (fromString (libc examplePlatform) ''255.0.0'' (subnet exampleConfig)) \<and>
   httpCodes (trace (networkPost examplePlatform (Doc badSubnetDoc) exampleSys)) = [400] \<and>
   eeprom (networkPost examplePlatform (Doc badSubnetDoc) exampleSys) = eeprom exampleSys \<and>
   networkConfig exampleSys = exampleConfig \<and>
   networkConfig (networkPost examplePlatform (Doc badSubnetDoc) exampleSys) =
     exampleConfig\<lparr>useDHCP := False, ip := IPAddress 10 0 0 5\<rparr>"
  by (simp add: networkPost_def parseAddresses_def Let_def badSubnetDoc_def orDefault_def
      examplePlatform_def exampleLibC_def exampleSys_def exampleConfig_def httpCodes_def
      List.map_filter_def)

section \<open>Properties of the link state\<close>

lemma setLEDcolour_fields [simp]:
  "globalDateTime (snd (setLEDcolour lk led c s)) = globalDateTime s"
  "networkConfig (snd (setLEDcolour lk led c s)) = networkConfig s"
  "ntpUpdateTimestamp (snd (setLEDcolour lk led c s)) = ntpUpdateTimestamp s"
  "ethernetConnected (snd (setLEDcolour lk led c s)) = ethernetConnected s"
  "eeprom (snd (setLEDcolour lk led c s)) = eeprom s"
  by (simp_all add: setLEDcolour_def)

lemma applyNetworkConfig_trace:
  "\<exists>evs. trace (snd (applyNetworkConfig b s)) = trace s @ evs \<and> EthBegin (b 0) \<in> set evs"
  by (simp add: applyNetworkConfig_def Let_def)

lemma loadNetworkConfig_trace:
  "\<exists>evs. trace (snd (loadNetworkConfig p s)) = trace s @ evs"
  by (simp add: loadNetworkConfig_def Let_def debugPrintNetConfig_def)

lemma saveNetworkConfig_trace: "\<exists>evs. trace (saveNetworkConfig p s) = trace s @ evs"
  by (simp add: saveNetworkConfig_def Let_def debugPrintNetConfig_def)

lemma setupEthernet_trace:
  "\<exists>evs. trace (setupEthernet p env s) = trace s @ evs \<and> EthBegin (setupBeginOK env 0) \<in> set evs"
proof -
  obtain b s1 where l: "loadNetworkConfig p s = (b, s1)" by (cases "loadNetworkConfig p s")
  define s2 where "s2 = (if \<not> b then saveNetworkConfig p
         ((debug_printf LOG_INFO ''Invalid network configuration, using defaults\<newline>'' s1)
            \<lparr>networkConfig := defaultNetworkConfig (networkConfig s1)\<rparr>) else s1)"
  define s3 where "s3 = emit (EthHostname (hostname (networkConfig s2))) (emit EthSpiInit s2)"
  obtain a s4 where ap: "applyNetworkConfig (setupBeginOK env) s3 = (a, s4)"
    by (cases "applyNetworkConfig (setupBeginOK env) s3")
  from loadNetworkConfig_trace [of p s] l obtain e1 where e1: "trace s1 = trace s @ e1"
    by auto
  have "\<exists>e2. trace s2 = trace s1 @ e2"
  proof (cases b)
    case True
    then show ?thesis by (simp add: s2_def)
  next
    case False
    from saveNetworkConfig_trace [of p "(debug_printf LOG_INFO
        ''Invalid network configuration, using defaults\<newline>'' s1)
            \<lparr>networkConfig := defaultNetworkConfig (networkConfig s1)\<rparr>"] False
    show ?thesis by (auto simp: s2_def)
  qed
  then obtain e2 where e2: "trace s2 = trace s1 @ e2" by blast
  from applyNetworkConfig_trace [of "setupBeginOK env" s3] ap
  obtain e4 where e4: "trace s4 = trace s3 @ e4" "EthBegin (setupBeginOK env 0) \<in> set e4"
    by auto
  have "setupEthernet p env s =
    (let s5 = (if \<not> a then
                  debug_printf LOG_WARNING ''Failed to apply network configuration\<newline>'' s4
                else
                  debug_printf LOG_INFO ''MAC Address: %s\<newline>''
                    (s4\<lparr>deviceMacAddress :=
                          formatMac (mac env) (sizeof_deviceMacAddress (sizes p))\<rparr>));
          s6 = emit (Delay 2000) s5
      in if setupLink env = LinkOFF then
           (debug_printf LOG_WARNING ''Ethernet not connected\<newline>'' s6)
             \<lparr>ethernetConnected := False\<rparr>
         else
           (debug_printf LOG_INFO ''Ethernet connected, IP address: %s, Gateway: %s\<newline>'' s6)
             \<lparr>ethernetConnected := True\<rparr>)"
    using l ap by (simp add: setupEthernet_def Let_def s2_def [symmetric] s3_def [symmetric])
  then show ?thesis using e1 e2 e4 by (auto simp: Let_def s3_def)
qed

lemma setupEthernet_connected:
  "ethernetConnected (setupEthernet p env s) \<longleftrightarrow> setupLink env \<noteq> LinkOFF"
  by (simp add: setupEthernet_def Let_def split: prod.splits)

lemma loop_from_disconnected:
  "\<not> ethernetConnected s \<Longrightarrow>
   loop p env s =
     emit IpcUpdate
       (if loopLink env = LinkON then
          (if \<not> fst (applyNetworkConfig (loopBeginOK env) (s\<lparr>ethernetConnected := True\<rparr>)) then
             debug_printf LOG_ERROR ''Failed to apply network configuration!\<newline>''
               (snd (applyNetworkConfig (loopBeginOK env) (s\<lparr>ethernetConnected := True\<rparr>)))
           else
             debug_printf LOG_INFO ''Ethernet re-connected, IP address: %s, Gateway: %s\<newline>''
               (snd (applyNetworkConfig (loopBeginOK env) (s\<lparr>ethernetConnected := True\<rparr>))))
        else s)"
  by (simp add: loop_def Let_def split: prod.splits)

text \<open>
  Claim C2, as stated, fails. After a start with the cable unplugged the state is
  Disconnected; in the next pass of \<^verbatim>\<open>loop\<close> the link is up and \<^verbatim>\<open>applyNetworkConfig\<close> fails.
  The state is marked Connected all the same, no \<^verbatim>\<open>eth.begin()\<close> has ever succeeded, and
  the failure is in the log.
\<close>

theorem loop_connected_counterexample:
  "\<not> ethernetConnected (setupEthernet examplePlatform (exampleSetup LinkOFF) exampleSys) \<and>
   \<not> fst (applyNetworkConfig (loopBeginOK loopUpNoLease)
           ((setupEthernet examplePlatform (exampleSetup LinkOFF) exampleSys)
              \<lparr>ethernetConnected := True\<rparr>)) \<and>
   ethernetConnected (loop examplePlatform loopUpNoLease
     (setupEthernet examplePlatform (exampleSetup LinkOFF) exampleSys)) \<and>
   EthBegin True \<notin> set (trace (loop examplePlatform loopUpNoLease
     (setupEthernet examplePlatform (exampleSetup LinkOFF) exampleSys))) \<and>
   Log LOG_ERROR ''Failed to apply network configuration!\<newline>''
     \<in> set (trace (loop examplePlatform loopUpNoLease
         (setupEthernet examplePlatform (exampleSetup LinkOFF) exampleSys)))"
proof -
  let ?s = "setupEthernet examplePlatform (exampleSetup LinkOFF) exampleSys"
  have d: "\<not> ethernetConnected ?s"
    by (simp add: setupEthernet_connected exampleSetup_def)
  have n: "networkConfig ?s = exampleConfig"
    by (simp add: setupEthernet_networkConfig loadNetworkConfig_def Let_def
        examplePlatform_def exampleSys_def)
  have tr: "EthBegin True \<notin> set (trace ?s)"
    by (simp add: setupEthernet_def loadNetworkConfig_def applyNetworkConfig_def Let_def
        debugPrintNetConfig_def examplePlatform_def exampleSys_def exampleConfig_def
        exampleSetup_def)
  have f: "\<not> fst (applyNetworkConfig (loopBeginOK loopUpNoLease) (?s\<lparr>ethernetConnected := True\<rparr>))"
    using n by (simp add: applyNetworkConfig_def Let_def loopUpNoLease_def exampleConfig_def)
  have t2: "trace (snd (applyNetworkConfig (loopBeginOK loopUpNoLease)
              (?s\<lparr>ethernetConnected := True\<rparr>))) =
            trace ?s @ [EthEnd, EthBegin False,
              Log LOG_INFO ''Failed to configure Ethernet using DHCP, falling back to 192.168.1.10\<newline>'',
              EthConfigIP (IPAddress 192 168 1 10), EthBegin False]"
    using n by (simp add: applyNetworkConfig_def Let_def loopUpNoLease_def exampleConfig_def)
  have l: "loopLink loopUpNoLease = LinkON" by (simp add: loopUpNoLease_def)
  from d f tr t2 l show ?thesis
    by (simp add: loop_from_disconnected)
qed

text \<open>
  Claim C2, amended. The connected flag follows the poll of the link, not the outcome of
  \<^verbatim>\<open>applyNetworkConfig\<close>. A pass of \<^verbatim>\<open>loop\<close> that starts Disconnected marks the state Connected
  exactly when the poll returns \<^verbatim>\<open>LinkON\<close>, and runs \<^verbatim>\<open>applyNetworkConfig\<close> in that same pass
  (the pass calls \<^verbatim>\<open>eth.begin()\<close>); when \<^verbatim>\<open>applyNetworkConfig\<close> fails, the failure is logged and
  the state is marked Connected. A pass that starts Connected and polls \<^verbatim>\<open>LinkOFF\<close> marks the
  state Disconnected. \<^verbatim>\<open>setupEthernet\<close> runs \<^verbatim>\<open>applyNetworkConfig\<close> and marks the state Connected
  exactly when its poll does not return \<^verbatim>\<open>LinkOFF\<close>.
\<close>

theorem loop_link_state:
  "(\<not> ethernetConnected s \<longrightarrow>
      (ethernetConnected (loop p env s) \<longleftrightarrow> loopLink env = LinkON)) \<and>
   (\<not> ethernetConnected s \<and> loopLink env = LinkON \<longrightarrow>
      (\<exists>evs. trace (loop p env s) = trace s @ evs \<and> EthBegin (loopBeginOK env 0) \<in> set evs)) \<and>
   (\<not> ethernetConnected s \<and> loopLink env = LinkON \<and>
    \<not> fst (applyNetworkConfig (loopBeginOK env) (s\<lparr>ethernetConnected := True\<rparr>)) \<longrightarrow>
      ethernetConnected (loop p env s) \<and>
      Log LOG_ERROR ''Failed to apply network configuration!\<newline>'' \<in> set (trace (loop p env s))) \<and>
   (ethernetConnected s \<and> loopLink env = LinkOFF \<longrightarrow> \<not> ethernetConnected (loop p env s)) \<and>
   (ethernetConnected (setupEthernet p senv s) \<longleftrightarrow> setupLink senv \<noteq> LinkOFF) \<and>
   (\<exists>evs. trace (setupEthernet p senv s) = trace s @ evs \<and>
          EthBegin (setupBeginOK senv 0) \<in> set evs)"
proof (intro conjI impI)
  assume "\<not> ethernetConnected s"
  then show "ethernetConnected (loop p env s) \<longleftrightarrow> loopLink env = LinkON"
    by (simp add: loop_from_disconnected)
next
  assume h: "\<not> ethernetConnected s \<and> loopLink env = LinkON"
  from applyNetworkConfig_trace [of "loopBeginOK env" "s\<lparr>ethernetConnected := True\<rparr>"]
  obtain evs where
    "trace (snd (applyNetworkConfig (loopBeginOK env) (s\<lparr>ethernetConnected := True\<rparr>))) =
       trace s @ evs" "EthBegin (loopBeginOK env 0) \<in> set evs"
    by auto
  with h show "\<exists>evs. trace (loop p env s) = trace s @ evs \<and> EthBegin (loopBeginOK env 0) \<in> set evs"
    by (simp add: loop_from_disconnected)
next
  assume h: "\<not> ethernetConnected s \<and> loopLink env = LinkON \<and>
    \<not> fst (applyNetworkConfig (loopBeginOK env) (s\<lparr>ethernetConnected := True\<rparr>))"
  then show "ethernetConnected (loop p env s)"
    and "Log LOG_ERROR ''Failed to apply network configuration!\<newline>'' \<in> set (trace (loop p env s))"
    by (simp_all add: loop_from_disconnected)
next
  assume "ethernetConnected s \<and> loopLink env = LinkOFF"
  then show "\<not> ethernetConnected (loop p env s)"
    by (simp add: loop_def Let_def)
next
  show "ethernetConnected (setupEthernet p senv s) \<longleftrightarrow> setupLink senv \<noteq> LinkOFF"
    by (rule setupEthernet_connected)
next
  show "\<exists>evs. trace (setupEthernet p senv s) = trace s @ evs \<and>
          EthBegin (setupBeginOK senv 0) \<in> set evs"
    by (rule setupEthernet_trace)
qed

theorem loop_link_state_witness:
  "\<not> ethernetConnected exampleSys \<and> loopLink loopUpNoLease = LinkON \<and>
   \<not> fst (applyNetworkConfig (loopBeginOK loopUpNoLease) (exampleSys\<lparr>ethernetConnected := True\<rparr>)) \<and>
   ethernetConnected (loop examplePlatform loopUpNoLease exampleSys) \<and>
   Log LOG_ERROR ''Failed to apply network configuration!\<newline>''
     \<in> set (trace (loop examplePlatform loopUpNoLease exampleSys)) \<and>
   (\<exists>evs. trace (loop examplePlatform loopUpNoLease exampleSys) = trace exampleSys @ evs \<and>
          EthBegin False \<in> set evs) \<and>
   ethernetConnected (exampleSys\<lparr>ethernetConnected := True\<rparr>) \<and>
   loopLink (loopUpNoLease\<lparr>loopLink := LinkOFF\<rparr>) = LinkOFF \<and>
   \<not> ethernetConnected (loop examplePlatform (loopUpNoLease\<lparr>loopLink := LinkOFF\<rparr>)
        (exampleSys\<lparr>ethernetConnected := True\<rparr>))"
proof -
  have d: "\<not> ethernetConnected exampleSys" by (simp add: exampleSys_def)
  have l: "loopLink loopUpNoLease = LinkON" by (simp add: loopUpNoLease_def)
  have b: "loopBeginOK loopUpNoLease 0 = False" by (simp add: loopUpNoLease_def)
  have f: "\<not> fst (applyNetworkConfig (loopBeginOK loopUpNoLease)
                   (exampleSys\<lparr>ethernetConnected := True\<rparr>))"
    by (simp add: applyNetworkConfig_def Let_def loopUpNoLease_def exampleSys_def
        exampleConfig_def)
  have c: "ethernetConnected (exampleSys\<lparr>ethernetConnected := True\<rparr>)" by simp
  have o: "loopLink (loopUpNoLease\<lparr>loopLink := LinkOFF\<rparr>) = LinkOFF" by simp
  from loop_link_state [of exampleSys examplePlatform loopUpNoLease] d l f
  have 1: "ethernetConnected (loop examplePlatform loopUpNoLease exampleSys) \<and>
     Log LOG_ERROR ''Failed to apply network configuration!\<newline>''
       \<in> set (trace (loop examplePlatform loopUpNoLease exampleSys)) \<and>
     (\<exists>evs. trace (loop examplePlatform loopUpNoLease exampleSys) = trace exampleSys @ evs \<and>
          EthBegin (loopBeginOK loopUpNoLease 0) \<in> set evs)"
    by blast
  from loop_link_state [of "exampleSys\<lparr>ethernetConnected := True\<rparr>" examplePlatform
      "loopUpNoLease\<lparr>loopLink := LinkOFF\<rparr>"] c o
  have 2: "\<not> ethernetConnected (loop examplePlatform (loopUpNoLease\<lparr>loopLink := LinkOFF\<rparr>)
        (exampleSys\<lparr>ethernetConnected := True\<rparr>))"
    by blast
  from 1 2 d l f c o b show ?thesis by simp
qed

section \<open>Properties of the writes to the clock record\<close>


















section \<open>Properties of the power task\<close>

lemma count_list_replicate_other: "x \<noteq> y \<Longrightarrow> count_list (replicate n x) y = 0"
  by (induction n) simp_all

lemma railWarning_not_Delay [simp]: "Delay n \<noteq> railWarning r"
  by (cases r) simp_all

lemma checkRail_count:
  "count_list (trace (snd (checkRail v vmax vmin wasOK msg s))) (Log LOG_WARNING msg') =
     count_list (trace s) (Log LOG_WARNING msg') +
       (if (v > vmax \<or> v < vmin) \<and> wasOK \<and> msg = msg' then 1 else 0)"
  by (simp add: checkRail_def)

lemma checkRail_flag: "fst (checkRail v vmax vmin wasOK msg s) \<longleftrightarrow> \<not> (v > vmax \<or> v < vmin)"
  by (simp add: checkRail_def)

lemma setLEDcolour_count:
  "count_list (trace (snd (setLEDcolour lk led c s))) (railWarning r) =
     count_list (trace s) (railWarning r)"
  by (cases r) (simp_all add: setLEDcolour_def)

lemma managePower_cycle_count:
  "count_list (trace (snd (managePower_cycle p env l s))) (railWarning r) =
     count_list (trace s) (railWarning r) + (if outOfBand p r env \<and> railOK l r then 1 else 0)"
proof -
  let ?s0 = "s\<lparr>trace := trace s @ replicate 10 (Delay 10)\<rparr>"
  let ?c1 = "checkRail (avgVpsu env)
               (V_PSU_MAX (rails p)) (V_PSU_MIN (rails p)) (local_psuOK l)
               ''PSU voltage out of range: %.2f V\<newline>'' ?s0"
  obtain b1 s1 where c1: "?c1 = (b1, s1)" by (cases ?c1)
  let ?c2 = "checkRail (avgV20 env)
               (V_20V_MAX (rails p)) (V_20V_MIN (rails p)) (local_V20OK l)
               ''20V voltage out of range: %.2f V\<newline>'' s1"
  obtain b2 s2 where c2: "?c2 = (b2, s2)" by (cases ?c2)
  let ?c3 = "checkRail (avgV5 env)
               (V_5V_MAX (rails p)) (V_5V_MIN (rails p)) (local_V5OK l)
               ''5V voltage out of range: %.2f V\<newline>'' s2"
  obtain b3 s3 where c3: "?c3 = (b3, s3)" by (cases ?c3)
  let ?s4 = "snd (setLEDcolour (powerLedLock env) (LED_SYSTEM_STATUS (leds p))
                      (if \<not> b1 \<or> \<not> b2 \<or> \<not> b3 then LED_STATUS_WARNING (leds p)
                       else LED_STATUS_OK (leds p)) s3)"
  have t0: "count_list (trace ?s0) (railWarning r) = count_list (trace s) (railWarning r)"
    by (simp add: count_list_replicate_other)
  have t: "count_list (trace (snd (managePower_cycle p env l s))) (railWarning r) =
           count_list (trace ?s4) (railWarning r)"
    using c1 c2 c3 by (simp add: managePower_cycle_def Let_def)
  obtain m where m: "railWarning r = Log LOG_WARNING m" by (cases r) auto
  from checkRail_count [of "avgVpsu env"
      "V_PSU_MAX (rails p)" "V_PSU_MIN (rails p)" "local_psuOK l"
      "''PSU voltage out of range: %.2f V\<newline>''" ?s0 m] c1 m t0
  have n1: "count_list (trace s1) (railWarning r) = count_list (trace s) (railWarning r) +
      (if outOfBand p RailPSU env \<and> local_psuOK l \<and>
          ''PSU voltage out of range: %.2f V\<newline>'' = m then 1 else 0)"
    by (simp add: outOfBand_def)
  from checkRail_count [of "avgV20 env"
      "V_20V_MAX (rails p)" "V_20V_MIN (rails p)" "local_V20OK l"
      "''20V voltage out of range: %.2f V\<newline>''" s1 m] c2 m
  have n2: "count_list (trace s2) (railWarning r) = count_list (trace s1) (railWarning r) +
      (if outOfBand p Rail20V env \<and> local_V20OK l \<and>
          ''20V voltage out of range: %.2f V\<newline>'' = m then 1 else 0)"
    by (simp add: outOfBand_def)
  from checkRail_count [of "avgV5 env"
      "V_5V_MAX (rails p)" "V_5V_MIN (rails p)" "local_V5OK l"
      "''5V voltage out of range: %.2f V\<newline>''" s2 m] c3 m
  have n3: "count_list (trace s3) (railWarning r) = count_list (trace s2) (railWarning r) +
      (if outOfBand p Rail5V env \<and> local_V5OK l \<and>
          ''5V voltage out of range: %.2f V\<newline>'' = m then 1 else 0)"
    by (simp add: outOfBand_def)
  have n4: "count_list (trace ?s4) (railWarning r) = count_list (trace s3) (railWarning r)"
    by (rule setLEDcolour_count)
  from m n1 n2 n3 n4 t show ?thesis
    by (cases r) auto
qed

lemma managePower_cycle_flag:
  "railOK (fst (managePower_cycle p env l s)) r \<longleftrightarrow> \<not> outOfBand p r env"
  by (cases r) (simp_all add: managePower_cycle_def Let_def outOfBand_def checkRail_def
      split: prod.splits)

lemma managePower_cycles_unhealthy:
  "\<not> railOK l r \<Longrightarrow> \<forall>env \<in> set envs. outOfBand p r env \<Longrightarrow>
   count_list (trace (snd (managePower_cycles p envs l s))) (railWarning r) =
     count_list (trace s) (railWarning r) \<and>
   \<not> railOK (fst (managePower_cycles p envs l s)) r"
proof (induction envs arbitrary: l s)
  case Nil
  then show ?case by simp
next
  case (Cons env envs)
  obtain l' s' where c: "managePower_cycle p env l s = (l', s')"
    by (cases "managePower_cycle p env l s")
  from managePower_cycle_flag [of p env l s r] c Cons.prems(2)
  have f: "\<not> railOK l' r" by simp
  from managePower_cycle_count [of p env l s r] c Cons.prems(1)
  have n: "count_list (trace s') (railWarning r) = count_list (trace s) (railWarning r)"
    by simp
  from Cons.prems(2) have "\<forall>env \<in> set envs. outOfBand p r env" by simp
  from Cons.IH [OF f this, of s'] c n show ?case by simp
qed

text \<open>
  Claim C8. For each rail: from a state in which the flag of the rail is true, passes of the
  task loop whose averaged value is outside the band of the rail log the warning of the
  rail exactly once, in the first pass, in which the flag turns false; the later passes log
  no further warning of the rail.
\<close>

theorem managePower_warns_once:
  assumes "railOK l r" and "\<forall>e \<in> set (env # envs). outOfBand p r e"
  shows "count_list (trace (snd (managePower_cycle p env l s))) (railWarning r) =
           count_list (trace s) (railWarning r) + 1 \<and>
         \<not> railOK (fst (managePower_cycle p env l s)) r \<and>
         count_list (trace (snd (managePower_cycles p (env # envs) l s))) (railWarning r) =
           count_list (trace s) (railWarning r) + 1 \<and>
         \<not> railOK (fst (managePower_cycles p (env # envs) l s)) r"
proof -
  obtain l' s' where c: "managePower_cycle p env l s = (l', s')"
    by (cases "managePower_cycle p env l s")
  from assms(2) have o: "outOfBand p r env" and os: "\<forall>e \<in> set envs. outOfBand p r e"
    by simp_all
  from managePower_cycle_flag [of p env l s r] c o have f: "\<not> railOK l' r" by simp
  from managePower_cycle_count [of p env l s r] c o assms(1)
  have n: "count_list (trace s') (railWarning r) = count_list (trace s) (railWarning r) + 1"
    by simp
  from managePower_cycles_unhealthy [OF f os, of s'] c n f show ?thesis by simp
qed

theorem managePower_warns_once_witness:
  "railOK allOK RailPSU \<and> outOfBand examplePlatform RailPSU overVoltage \<and>
   count_list (trace (snd (managePower_cycle examplePlatform overVoltage allOK exampleSys)))
     (railWarning RailPSU) = 1 \<and>
   count_list (trace (snd (managePower_cycles examplePlatform
       (overVoltage # replicate 5 overVoltage) allOK exampleSys))) (railWarning RailPSU) = 1 \<and>
   \<not> railOK (fst (managePower_cycles examplePlatform
       (overVoltage # replicate 5 overVoltage) allOK exampleSys)) RailPSU"
proof -
  have h1: "railOK allOK RailPSU" by (simp add: allOK_def)
  have o: "outOfBand examplePlatform RailPSU overVoltage"
    by (simp add: outOfBand_def examplePlatform_def overVoltage_def)
  then have h2: "\<forall>e \<in> set (overVoltage # replicate 5 overVoltage).
      outOfBand examplePlatform RailPSU e"
    by simp
  have z: "count_list (trace exampleSys) (railWarning RailPSU) = 0"
    by (simp add: exampleSys_def)
  from managePower_warns_once [OF h1 h2, of exampleSys] h1 o z show ?thesis by simp
qed

end
